theory Spec2Isabelle
  imports Complex_Main "HOL-Library.Sublist"
begin

section \<open>Python values shared by the models\<close>

text \<open>
  Exceptions of the Python source are values of \<open>error\<close>; a function that can raise
  returns \<open>error + 'a\<close> with \<open>Inl\<close> for the exception. \<open>LibraryError\<close> stands for
  any exception raised inside a call into an external library.
\<close>

datatype error =
    AssertionError
  | ValueError
  | ZeroDivisionError
  | KeyError
  | IndexError
  | AttributeError
  | RuntimeError
  | LibraryError
  | Exception string

section \<open>DetectMultiBackend.model_type\<close>

text \<open>
  \<open>s in p\<close> on Python strings: \<open>s\<close> occurs in \<open>p\<close> as a contiguous substring.
\<close>

fun str_in :: "string \<Rightarrow> string \<Rightarrow> bool" where
  "str_in s [] = (s = [])"
| "str_in s (c # cs) = (prefix s (c # cs) \<or> str_in s cs)"

text \<open>
  \<open>Path(p).name\<close> for a POSIX path: the path is split at \<open>/\<close>, empty components and
  \<open>.\<close> components are dropped, and the name is the last component left (the empty
  string when none is left).
\<close>

fun split_on :: "char \<Rightarrow> string \<Rightarrow> string list" where
  "split_on c [] = [[]]"
| "split_on c (x # xs) =
     (if x = c then [] # split_on c xs
      else (case split_on c xs of
              [] \<Rightarrow> [[x]]
            | p # ps \<Rightarrow> (x # p) # ps))"

definition path_parts :: "string \<Rightarrow> string list" where
  "path_parts p = filter (\<lambda>s. s \<noteq> [] \<and> s \<noteq> ''.'') (split_on (CHR ''/'') p)"

definition path_name :: "string \<Rightarrow> string" where
  "path_name p = (case rev (path_parts p) of [] \<Rightarrow> [] | s # _ \<Rightarrow> s)"

record backend_flags =
  pt :: bool
  jit :: bool
  onnx :: bool
  xml :: bool
  engine :: bool
  coreml :: bool
  saved_model :: bool
  pb :: bool
  tflite :: bool
  edgetpu :: bool
  tfjs :: bool

text \<open>
  \<open>model_type\<close>, lines 519-529. Two helpers it calls are not part of the source file and
  are parameters of the model:
  \<^item> \<open>export_suffixes\<close> is the \<open>Suffix\<close> column of \<open>export.export_formats()\<close>;
  \<^item> \<open>check_suffix p suffixes\<close> tells whether \<open>utils.general.check_suffix\<close> returns
    (it raises \<open>AssertionError\<close> otherwise).
  The tuple assignment of line 526 has twelve targets, so it raises \<open>ValueError\<close>
  unless the table has eleven rows.
\<close>

definition model_type ::
  "(string \<Rightarrow> string list \<Rightarrow> bool) \<Rightarrow> string list \<Rightarrow> string \<Rightarrow> error + backend_flags" where
  "model_type check_suffix export_suffixes p =
     (let suffixes = export_suffixes @ [''.xml''] in
      if \<not> check_suffix p suffixes then Inl AssertionError
      else
        let name = path_name p in
        (case map (\<lambda>s. str_in s name) suffixes of
           [pt', jit', onnx', xml', engine', coreml', saved_model', pb', tflite', edgetpu',
            tfjs', xml2] \<Rightarrow>
             Inr \<lparr>pt = pt', jit = jit', onnx = onnx', xml = (xml' \<or> xml2), engine = engine',
                  coreml = coreml', saved_model = saved_model', pb = pb',
                  tflite = (tflite' \<and> \<not> edgetpu'), edgetpu = edgetpu', tfjs = tfjs'\<rparr>
         | _ \<Rightarrow> Inl ValueError))"

text \<open>
  The suffix table of the upstream \<open>export.export_formats()\<close>, as the usage comment of
  \<open>DetectMultiBackend.__init__\<close> (lines 325-335) and the comments of lines 382 and 527
  list it; used for concrete evaluations only.
\<close>

definition yolov5_suffixes :: "string list" where
  "yolov5_suffixes =
     [''.pt'', ''.torchscript'', ''.onnx'', ''_openvino_model'', ''.engine'', ''.mlmodel'',
      ''_saved_model'', ''.pb'', ''.tflite'', ''_edgetpu.tflite'', ''_web_model'']"

section \<open>DetectMultiBackend\<close>

text \<open>Sequencing of calls that can raise: the first exception ends the computation.\<close>

definition and_then :: "error + 'a \<Rightarrow> ('a \<Rightarrow> error + 'b) \<Rightarrow> error + 'b" where
  "and_then r f = (case r of Inl e \<Rightarrow> Inl e | Inr x \<Rightarrow> f x)"

subsection \<open>Construction (lines 323-451)\<close>

datatype device = CPU | CUDA nat

datatype weights = WeightsPath string | WeightsList "string list"

text \<open>
  The runtime object that a branch of \<open>__init__\<close> loads and \<open>locals()\<close> then stores on
  the instance (\<open>model\<close>, \<open>net\<close>, \<open>session\<close>, \<open>executable_network\<close>, \<open>context\<close> with its
  bindings, \<open>frozen_func\<close>, \<open>interpreter\<close>); \<open>NoRuntime\<close> when no branch loaded one.
  \<open>engine_images_shape\<close> is \<open>bindings['images'].shape\<close> of the engine at a path.
\<close>

datatype runtime =
    PyTorchModel
  | TorchScriptModel
  | DnnNet
  | OnnxSession
  | OpenVinoNetwork
  | TensorRtContext
  | CoreMlModel
  | SavedModel
  | GraphDefFunc
  | TfLiteInterpreter
  | EdgeTpuInterpreter
  | NoRuntime

text \<open>
  What construction reads from outside the source file: the two helpers of
  \<open>model_type\<close>, \<open>attempt_download\<close> (it returns the local path or raises), the reading
  of the class names from \<open>data\<close>, and for each runtime whether its loader returns for a
  path (it raises otherwise).
\<close>

record init_env =
  check_suffix :: "string \<Rightarrow> string list \<Rightarrow> bool"
  export_suffixes :: "string list"
  attempt_download :: "string \<Rightarrow> error + string"
  load_names :: "string \<Rightarrow> bool"
  loader_returns :: "runtime \<Rightarrow> string \<Rightarrow> bool"
  engine_images_shape :: "string \<Rightarrow> nat list"

text \<open>
  The attributes of an instance that \<open>forward\<close> reads. \<open>images_shape\<close> is
  \<open>bindings['images'].shape\<close> of a TensorRT engine. The attributes \<open>stride\<close>, \<open>names\<close>
  and \<open>fp16\<close> play no part in the dispatch and are left out.
\<close>

record detect_multi_backend =
  flags :: backend_flags
  dnn :: bool
  device :: device
  keras :: bool
  runtime :: runtime
  images_shape :: "nat list"

definition load_runtime :: "init_env \<Rightarrow> runtime \<Rightarrow> string \<Rightarrow> error + runtime" where
  "load_runtime env r w = (if loader_returns env r w then Inr r else Inl LibraryError)"

definition tfjs_message :: string where
  "tfjs_message = ''ERROR: YOLOv5 TF.js inference is not supported''"

text \<open>The \<open>if\<close>/\<open>elif\<close> chain of lines 348-450.\<close>

definition init_dispatch :: "init_env \<Rightarrow> backend_flags \<Rightarrow> bool \<Rightarrow> string \<Rightarrow> error + runtime" where
  "init_dispatch env f dnn_arg w =
     (if pt f then load_runtime env PyTorchModel w
      else if jit f then load_runtime env TorchScriptModel w
      else if dnn_arg then load_runtime env DnnNet w
      else if onnx f then load_runtime env OnnxSession w
      else if xml f then load_runtime env OpenVinoNetwork w
      else if engine f then load_runtime env TensorRtContext w
      else if coreml f then load_runtime env CoreMlModel w
      else if saved_model f then load_runtime env SavedModel w
      else if pb f then load_runtime env GraphDefFunc w
      else if tflite f \<or> edgetpu f then
        (if edgetpu f then load_runtime env EdgeTpuInterpreter w
         else load_runtime env TfLiteInterpreter w)
      else if tfjs f then Inl (Exception tfjs_message)
      else Inr NoRuntime)"

definition first_weights :: "weights \<Rightarrow> error + string" where
  "first_weights ws =
     (case ws of
        WeightsPath w \<Rightarrow> Inr w
      | WeightsList [] \<Rightarrow> Inl IndexError
      | WeightsList (w # _) \<Rightarrow> Inr w)"

definition DetectMultiBackend_init ::
  "init_env \<Rightarrow> weights \<Rightarrow> device \<Rightarrow> bool \<Rightarrow> string option
     \<Rightarrow> error + detect_multi_backend" where
  "DetectMultiBackend_init env ws dev dnn_arg data =
     and_then (first_weights ws) (\<lambda>w.
     and_then (model_type (check_suffix env) (export_suffixes env) w) (\<lambda>f.
     and_then (attempt_download env w) (\<lambda>w'.
     and_then (case data of
                 None \<Rightarrow> Inr ()
               | Some d \<Rightarrow> if d = [] \<or> load_names env d then Inr () else Inl LibraryError) (\<lambda>_.
     and_then (init_dispatch env f dnn_arg w') (\<lambda>r.
       Inr \<lparr>flags = f, dnn = dnn_arg, device = dev, keras = False, runtime = r,
            images_shape = engine_images_shape env w'\<rparr>)))))"

subsection \<open>Inference (lines 453-509)\<close>

text \<open>
  A torch tensor lives on a device, a numpy array does not. The numeric content is of
  an arbitrary type \<open>'d\<close>: the dispatch never looks at it.
\<close>

datatype 'd array = TorchTensor device "nat list" 'd | NdArray "nat list" 'd

fun shape_of :: "'d array \<Rightarrow> nat list" where
  "shape_of (TorchTensor _ s _) = s"
| "shape_of (NdArray s _) = s"

fun content_of :: "'d array \<Rightarrow> 'd" where
  "content_of (TorchTensor _ _ d) = d"
| "content_of (NdArray _ d) = d"

text \<open>\<open>im.cpu().numpy()\<close>\<close>

definition to_numpy :: "'d array \<Rightarrow> 'd array" where
  "to_numpy a = NdArray (shape_of a) (content_of a)"

text \<open>Lines 507-508: \<open>torch.tensor(y, device=self.device)\<close> for a numpy array only.\<close>

definition to_device_tensor :: "device \<Rightarrow> 'd array \<Rightarrow> 'd array" where
  "to_device_tensor dev y =
     (case y of NdArray s d \<Rightarrow> TorchTensor dev s d | TorchTensor dv s d \<Rightarrow> TorchTensor dv s d)"

text \<open>The calls into the vendor runtimes that \<open>forward\<close> makes, one constructor each.\<close>

datatype vendor_call =
    PyTorch_model_call
  | TorchScript_model_call
  | DNN_net_setInput
  | DNN_net_forward
  | ONNX_session_get_outputs
  | ONNX_session_get_inputs
  | ONNX_session_run
  | OpenVINO_executable_network_call
  | TensorRT_context_execute_v2
  | CoreML_model_predict
  | TF_saved_model_call
  | TF_frozen_func_call
  | TFLite_interpreter_set_tensor
  | TFLite_interpreter_invoke
  | TFLite_interpreter_get_tensor

text \<open>
  What the runtimes and the array library compute, as parameters. A dictionary that
  CoreML returns is an association list. \<open>coreml_output_key\<close> is the key computation of
  line 485 on the dictionary's keys.
\<close>

record 'd vendor =
  torch_model :: "'d array \<Rightarrow> bool \<Rightarrow> bool \<Rightarrow> 'd array list"
  jit_model :: "'d array \<Rightarrow> 'd array list"
  dnn_net_forward :: "'d array \<Rightarrow> 'd array"
  onnx_session_run :: "'d array \<Rightarrow> 'd array list"
  openvino_network :: "'d array \<Rightarrow> 'd array"
  trt_output_binding :: "'d array \<Rightarrow> 'd array"
  coreml_predict :: "'d array \<Rightarrow> (string \<times> 'd array) list"
  coreml_boxes :: "nat \<Rightarrow> nat \<Rightarrow> 'd array \<Rightarrow> 'd array \<Rightarrow> nat list \<times> 'd"
  coreml_output_key :: "string list \<Rightarrow> error + string"
  saved_model_call :: "bool \<Rightarrow> 'd array \<Rightarrow> nat list \<times> 'd"
  frozen_func :: "'d array \<Rightarrow> nat list \<times> 'd"
  tflite_is_int8 :: bool
  tflite_quantize :: "'d array \<Rightarrow> 'd array"
  tflite_invoke :: "'d array \<Rightarrow> 'd array"
  tflite_dequantize :: "'d array \<Rightarrow> 'd array"
  permute_bhwc :: "'d array \<Rightarrow> 'd array"
  scale_xywh :: "nat \<Rightarrow> nat \<Rightarrow> 'd array \<Rightarrow> 'd array"

text \<open>
  Reading an attribute that \<open>__init__\<close> did not store raises \<open>AttributeError\<close>: a branch
  of \<open>forward\<close> needs the runtime object that the branch of \<open>__init__\<close> with the same
  condition stored.
\<close>

text \<open>\<open>xs[0]\<close>\<close>

definition first_item :: "'a list \<Rightarrow> error + 'a" where
  "first_item xs = (case xs of [] \<Rightarrow> Inl IndexError | x # _ \<Rightarrow> Inr x)"

text \<open>Each branch returns the vendor calls it made, in order, and \<open>y\<close> or the exception.\<close>

definition forward_pt ::
  "'d vendor \<Rightarrow> detect_multi_backend \<Rightarrow> 'd array \<Rightarrow> bool \<Rightarrow> bool
     \<Rightarrow> vendor_call list \<times> (error + 'd array)" where
  "forward_pt v self im augment visualize =
     (if runtime self = PyTorchModel
      then ([PyTorch_model_call], first_item (torch_model v im augment visualize))
      else ([], Inl AttributeError))"

definition forward_jit ::
  "'d vendor \<Rightarrow> detect_multi_backend \<Rightarrow> 'd array \<Rightarrow> vendor_call list \<times> (error + 'd array)" where
  "forward_jit v self im =
     (if runtime self = TorchScriptModel
      then ([TorchScript_model_call], first_item (jit_model v im))
      else ([], Inl AttributeError))"

definition forward_dnn ::
  "'d vendor \<Rightarrow> detect_multi_backend \<Rightarrow> 'd array \<Rightarrow> vendor_call list \<times> (error + 'd array)" where
  "forward_dnn v self im =
     (if runtime self = DnnNet
      then ([DNN_net_setInput, DNN_net_forward], Inr (dnn_net_forward v (to_numpy im)))
      else ([], Inl AttributeError))"

definition forward_onnx ::
  "'d vendor \<Rightarrow> detect_multi_backend \<Rightarrow> 'd array \<Rightarrow> vendor_call list \<times> (error + 'd array)" where
  "forward_onnx v self im =
     (if runtime self = OnnxSession
      then ([ONNX_session_get_outputs, ONNX_session_get_inputs, ONNX_session_run],
            first_item (onnx_session_run v (to_numpy im)))
      else ([], Inl AttributeError))"

definition forward_xml ::
  "'d vendor \<Rightarrow> detect_multi_backend \<Rightarrow> 'd array \<Rightarrow> vendor_call list \<times> (error + 'd array)" where
  "forward_xml v self im =
     (if runtime self = OpenVinoNetwork
      then ([OpenVINO_executable_network_call], Inr (openvino_network v (to_numpy im)))
      else ([], Inl AttributeError))"

definition forward_engine ::
  "'d vendor \<Rightarrow> detect_multi_backend \<Rightarrow> 'd array \<Rightarrow> vendor_call list \<times> (error + 'd array)" where
  "forward_engine v self im =
     (if runtime self \<noteq> TensorRtContext then ([], Inl AttributeError)
      else if shape_of im \<noteq> images_shape self then ([], Inl AssertionError)
      else ([TensorRT_context_execute_v2], Inr (trt_output_binding v im)))"

definition forward_coreml ::
  "'d vendor \<Rightarrow> detect_multi_backend \<Rightarrow> 'd array \<Rightarrow> nat \<Rightarrow> nat
     \<Rightarrow> vendor_call list \<times> (error + 'd array)" where
  "forward_coreml v self im w h =
     (if runtime self \<noteq> CoreMlModel then ([], Inl AttributeError)
      else
        let y = coreml_predict v (to_numpy (permute_bhwc v im)) in
        ([CoreML_model_predict],
         if ''confidence'' \<in> set (map fst y) then
           (case map_of y ''coordinates'' of
              None \<Rightarrow> Inl KeyError
            | Some coordinates \<Rightarrow>
                (case map_of y ''confidence'' of
                   None \<Rightarrow> Inl KeyError
                 | Some confidence \<Rightarrow>
                     (case coreml_boxes v w h coordinates confidence of
                        (s, d) \<Rightarrow> Inr (NdArray s d))))
         else
           and_then (coreml_output_key v (map fst y)) (\<lambda>k.
             case map_of y k of None \<Rightarrow> Inl KeyError | Some out \<Rightarrow> Inr out)))"

definition forward_tf ::
  "'d vendor \<Rightarrow> detect_multi_backend \<Rightarrow> 'd array \<Rightarrow> nat \<Rightarrow> nat
     \<Rightarrow> vendor_call list \<times> (error + 'd array)" where
  "forward_tf v self im w h =
     (let im' = to_numpy (permute_bhwc v im) in
      if saved_model (flags self) then
        (if runtime self = SavedModel
         then ([TF_saved_model_call],
               case saved_model_call v (keras self) im' of
                 (s, d) \<Rightarrow> Inr (scale_xywh v w h (NdArray s d)))
         else ([], Inl AttributeError))
      else if pb (flags self) then
        (if runtime self = GraphDefFunc
         then ([TF_frozen_func_call],
               case frozen_func v im' of (s, d) \<Rightarrow> Inr (scale_xywh v w h (NdArray s d)))
         else ([], Inl AttributeError))
      else
        (if runtime self \<in> {TfLiteInterpreter, EdgeTpuInterpreter} then
           (let int8 = tflite_is_int8 v;
                im'' = (if int8 then tflite_quantize v im' else im');
                y = tflite_invoke v im'';
                y' = (if int8 then tflite_dequantize v y else y)
            in ([TFLite_interpreter_set_tensor, TFLite_interpreter_invoke,
                 TFLite_interpreter_get_tensor],
                Inr (scale_xywh v w h y')))
         else ([], Inl AttributeError)))"

text \<open>Lines 455-505: the value of \<open>y\<close> before line 507.\<close>

definition forward_dispatch ::
  "'d vendor \<Rightarrow> detect_multi_backend \<Rightarrow> 'd array \<Rightarrow> bool \<Rightarrow> bool
     \<Rightarrow> vendor_call list \<times> (error + 'd array)" where
  "forward_dispatch v self im augment visualize =
     (case shape_of im of
        [b, ch, h, w] \<Rightarrow>
          (if pt (flags self) then forward_pt v self im augment visualize
           else if jit (flags self) then forward_jit v self im
           else if dnn self then forward_dnn v self im
           else if onnx (flags self) then forward_onnx v self im
           else if xml (flags self) then forward_xml v self im
           else if engine (flags self) then forward_engine v self im
           else if coreml (flags self) then forward_coreml v self im w h
           else forward_tf v self im w h)
      | _ \<Rightarrow> ([], Inl ValueError))"

datatype 'd forward_result = WithVal "'d array" "'d array list" | Plain "'d array"

definition DetectMultiBackend_forward ::
  "'d vendor \<Rightarrow> detect_multi_backend \<Rightarrow> 'd array \<Rightarrow> bool \<Rightarrow> bool \<Rightarrow> bool
     \<Rightarrow> vendor_call list \<times> (error + 'd forward_result)" where
  "DetectMultiBackend_forward v self im augment visualize val =
     (case forward_dispatch v self im augment visualize of
        (calls, Inl e) \<Rightarrow> (calls, Inl e)
      | (calls, Inr y) \<Rightarrow>
          (let y' = to_device_tensor (device self) y
           in (calls, Inr (if val then WithVal y' [] else Plain y'))))"

text \<open>
  The backends in the order of the \<open>if\<close>/\<open>elif\<close> chain, each with the flag that selects
  it; the backend that the dispatch is expected to pick is the first whose flag is set,
  and TensorFlow when none is.
\<close>

datatype backend =
  PyTorch | TorchScript | OpenCV_DNN | ONNX_Runtime | OpenVINO | TensorRT | CoreML | TensorFlow

definition priority :: "detect_multi_backend \<Rightarrow> (backend \<times> bool) list" where
  "priority self =
     [(PyTorch, pt (flags self)), (TorchScript, jit (flags self)), (OpenCV_DNN, dnn self),
      (ONNX_Runtime, onnx (flags self)), (OpenVINO, xml (flags self)),
      (TensorRT, engine (flags self)), (CoreML, coreml (flags self))]"

definition selected_backend :: "detect_multi_backend \<Rightarrow> backend" where
  "selected_backend self =
     (case find snd (priority self) of Some (b, _) \<Rightarrow> b | None \<Rightarrow> TensorFlow)"

fun backend_of :: "vendor_call \<Rightarrow> backend" where
  "backend_of PyTorch_model_call = PyTorch"
| "backend_of TorchScript_model_call = TorchScript"
| "backend_of DNN_net_setInput = OpenCV_DNN"
| "backend_of DNN_net_forward = OpenCV_DNN"
| "backend_of ONNX_session_get_outputs = ONNX_Runtime"
| "backend_of ONNX_session_get_inputs = ONNX_Runtime"
| "backend_of ONNX_session_run = ONNX_Runtime"
| "backend_of OpenVINO_executable_network_call = OpenVINO"
| "backend_of TensorRT_context_execute_v2 = TensorRT"
| "backend_of CoreML_model_predict = CoreML"
| "backend_of TF_saved_model_call = TensorFlow"
| "backend_of TF_frozen_func_call = TensorFlow"
| "backend_of TFLite_interpreter_set_tensor = TensorFlow"
| "backend_of TFLite_interpreter_invoke = TensorFlow"
| "backend_of TFLite_interpreter_get_tensor = TensorFlow"

text \<open>
  The calls that run the network; the others bind an input, name a binding or fetch an
  output.
\<close>

fun runs_inference :: "vendor_call \<Rightarrow> bool" where
  "runs_inference DNN_net_setInput = False"
| "runs_inference ONNX_session_get_outputs = False"
| "runs_inference ONNX_session_get_inputs = False"
| "runs_inference TFLite_interpreter_set_tensor = False"
| "runs_inference TFLite_interpreter_get_tensor = False"
| "runs_inference _ = True"

subsection \<open>A concrete environment\<close>

text \<open>
  An environment in which every helper and every loader returns, with the upstream
  suffix table, and runtimes that return fixed arrays; used for concrete evaluations
  only.
\<close>

definition demo_env :: init_env where
  "demo_env =
     \<lparr>check_suffix = (\<lambda>_ _. True), export_suffixes = yolov5_suffixes,
      attempt_download = (\<lambda>w. Inr w), load_names = (\<lambda>_. True),
      loader_returns = (\<lambda>_ _. True), engine_images_shape = (\<lambda>_. [1, 3, 640, 640])\<rparr>"

definition demo_vendor :: "nat vendor" where
  "demo_vendor =
     \<lparr>torch_model = (\<lambda>im _ _. [TorchTensor CPU [1, 25200, 85] 1, TorchTensor CPU [1, 3, 80, 80, 85] 2]),
      jit_model = (\<lambda>im. [TorchTensor CPU [1, 25200, 85] 3]),
      dnn_net_forward = (\<lambda>im. NdArray [1, 25200, 85] 4),
      onnx_session_run = (\<lambda>im. [NdArray [1, 25200, 85] 5]),
      openvino_network = (\<lambda>im. NdArray [1, 25200, 85] 6),
      trt_output_binding = (\<lambda>im. TorchTensor (CUDA 0) [1, 25200, 85] 7),
      coreml_predict = (\<lambda>im. [(''var_944'', NdArray [1, 25200, 85] 8)]),
      coreml_boxes = (\<lambda>w h coordinates confidence. ([0, 6], 9)),
      coreml_output_key = (\<lambda>keys. Inr ''var_944''),
      saved_model_call = (\<lambda>_ im. ([1, 25200, 85], 10)),
      frozen_func = (\<lambda>im. ([1, 25200, 85], 11)),
      tflite_is_int8 = False,
      tflite_quantize = (\<lambda>im. im),
      tflite_invoke = (\<lambda>im. NdArray [1, 25200, 85] 12),
      tflite_dequantize = (\<lambda>y. y),
      permute_bhwc = (\<lambda>im. im),
      scale_xywh = (\<lambda>w h y. y)\<rparr>"

definition demo_image :: "nat array" where
  "demo_image = TorchTensor CPU [1, 3, 640, 640] 0"


text \<open>
  The instance that \<open>DetectMultiBackend('yolov5s.onnx', device=cuda:0, dnn=True)\<close>
  constructs in the concrete environment.
\<close>

definition demo_dnn_instance :: detect_multi_backend where
  "demo_dnn_instance =
     \<lparr>flags = \<lparr>pt = False, jit = False, onnx = True, xml = False, engine = False,
                coreml = False, saved_model = False, pb = False, tflite = False,
                edgetpu = False, tfjs = False\<rparr>,
      dnn = True, device = CUDA 0, keras = False, runtime = DnnNet,
      images_shape = [1, 3, 640, 640]\<rparr>"

section \<open>Tensors\<close>

text \<open>
  A contiguous tensor: its dimensions (\<open>x.size()\<close>) and its elements in row-major
  order. A tensor is well formed when it has as many elements as its dimensions say.
\<close>

record 'a tensor =
  dims :: "nat list"
  elems :: "'a list"

definition wf_tensor :: "'a tensor \<Rightarrow> bool" where
  "wf_tensor t \<longleftrightarrow> length (elems t) = prod_list (dims t)"

text \<open>
  The position of a multi-index in row-major order, and the multi-index of a position.
\<close>

fun ravel :: "nat list \<Rightarrow> nat list \<Rightarrow> nat" where
  "ravel (d # ds) (i # is) = i * prod_list ds + ravel ds is"
| "ravel _ _ = 0"

fun unravel :: "nat list \<Rightarrow> nat \<Rightarrow> nat list" where
  "unravel [] n = []"
| "unravel (d # ds) n = (n div prod_list ds) # unravel ds (n mod prod_list ds)"

text \<open>\<open>x[i0, i1, ...]\<close> for a multi-index within the dimensions.\<close>

definition tensor_at :: "'a tensor \<Rightarrow> nat list \<Rightarrow> 'a" where
  "tensor_at t idx = elems t ! ravel (dims t) idx"

text \<open>
  \<open>x.view(shape)\<close> keeps the elements and replaces the dimensions; it raises
  \<open>RuntimeError\<close> when the new dimensions do not hold as many elements.
\<close>

definition view :: "nat list \<Rightarrow> 'a tensor \<Rightarrow> error + 'a tensor" where
  "view new t =
     (if prod_list new = length (elems t) then Inr (t\<lparr>dims := new\<rparr>) else Inl RuntimeError)"

text \<open>
  \<open>x.permute(p).contiguous()\<close>: dimension \<open>k\<close> of the result is dimension \<open>p[k]\<close> of \<open>x\<close>,
  and the element at a multi-index of the result is the element of \<open>x\<close> at the
  multi-index that has, at position \<open>p[k]\<close>, the \<open>k\<close>-th index of the result.
\<close>

definition index_of :: "nat list \<Rightarrow> nat \<Rightarrow> nat" where
  "index_of p d = length (takeWhile (\<lambda>k. k \<noteq> d) p)"

definition unpermute :: "nat list \<Rightarrow> nat list \<Rightarrow> nat list" where
  "unpermute p idx = map (\<lambda>d. idx ! index_of p d) [0..<length p]"

definition permute :: "nat list \<Rightarrow> 'a tensor \<Rightarrow> 'a tensor" where
  "permute p t =
     (let s' = map (\<lambda>k. dims t ! k) p in
      \<lparr>dims = s',
       elems = map (\<lambda>m. elems t ! ravel (dims t) (unpermute p (unravel s' m)))
                 [0..<prod_list s']\<rparr>)"

section \<open>Contract and Expand (lines 283-308)\<close>

text \<open>
  \<open>gain\<close> is the attribute \<open>self.gain\<close>. The unpacking of \<open>x.size()\<close> raises \<open>ValueError\<close>
  unless \<open>x\<close> has four dimensions, and \<open>//\<close> raises \<open>ZeroDivisionError\<close> for a zero gain.
\<close>

definition Contract_forward :: "nat \<Rightarrow> 'a tensor \<Rightarrow> error + 'a tensor" where
  "Contract_forward gain x =
     (case dims x of
        [b, c, h, w] \<Rightarrow>
          (let s = gain in
           if s = 0 then Inl ZeroDivisionError
           else
             and_then (view [b, c, h div s, s, w div s, s] x) (\<lambda>x.
             let x = permute [0, 3, 5, 1, 2, 4] x in
             view [b, c * s * s, h div s, w div s] x))
      | _ \<Rightarrow> Inl ValueError)"

definition Expand_forward :: "nat \<Rightarrow> 'a tensor \<Rightarrow> error + 'a tensor" where
  "Expand_forward gain x =
     (case dims x of
        [b, c, h, w] \<Rightarrow>
          (let s = gain in
           if s ^ 2 = 0 then Inl ZeroDivisionError
           else
             and_then (view [b, s, s, c div s ^ 2, h, w] x) (\<lambda>x.
             let x = permute [0, 3, 4, 1, 5, 2] x in
             view [b, c div s ^ 2, h * s, w * s] x))
      | _ \<Rightarrow> Inl ValueError)"

section \<open>SPP and SPPF (lines 208-239)\<close>

text \<open>
  \<open>nn.MaxPool2d(kernel_size=k, stride=1, padding=k // 2)\<close> on a tensor of dimensions
  \<open>(n, c, h, w)\<close>. The padding counts as minus infinity, so the maximum at an output
  position is taken over the input positions that the kernel covers. \<open>window k n i\<close>
  lists the input positions along one axis of extent \<open>n\<close> that the kernel covers at output
  position \<open>i\<close>: those from \<open>i - k // 2\<close> to \<open>i - k // 2 + k - 1\<close>. PyTorch raises for a
  kernel of size zero and for an input with an empty non-batch dimension.
\<close>

definition window :: "nat \<Rightarrow> nat \<Rightarrow> nat \<Rightarrow> nat list" where
  "window k n i = filter (\<lambda>r. i \<le> r + k div 2 \<and> r + k div 2 < i + k) [0..<n]"

text \<open>
  The maximum over the window at the output multi-index \<open>u\<close>, for an input of dimensions
  \<open>d\<close>.
\<close>

definition pool_at :: "nat \<Rightarrow> ('a::linorder) tensor \<Rightarrow> nat list \<Rightarrow> nat list \<Rightarrow> 'a" where
  "pool_at k t d u =
     Max (set (concat (map (\<lambda>r. map (\<lambda>q. elems t ! ravel d [u ! 0, u ! 1, r, q])
                                    (window k (d ! 3) (u ! 3)))
                           (window k (d ! 2) (u ! 2)))))"

definition max_pool2d :: "nat \<Rightarrow> ('a::linorder) tensor \<Rightarrow> error + 'a tensor" where
  "max_pool2d k t =
     (case dims t of
        [n, c, h, w] \<Rightarrow>
          if k = 0 \<or> c = 0 \<or> h = 0 \<or> w = 0 then Inl RuntimeError
          else
            let oh = h + 2 * (k div 2) + 1 - k;
                ow = w + 2 * (k div 2) + 1 - k;
                out = [n, c, oh, ow]
            in Inr \<lparr>dims = out,
                    elems = map (\<lambda>m. pool_at k t [n, c, h, w] (unravel out m))
                              [0..<prod_list out]\<rparr>
      | _ \<Rightarrow> Inl RuntimeError)"

text \<open>
  \<open>torch.cat(xs, 1)\<close>: the tensors agree in every dimension but the second; for each
  index of the first dimension, the blocks of the tensors follow one another.
\<close>

definition batch_block :: "'a tensor \<Rightarrow> nat \<Rightarrow> 'a list" where
  "batch_block t b =
     (let size = prod_list (tl (dims t)) in take size (drop (b * size) (elems t)))"

definition cat1 :: "'a tensor list \<Rightarrow> error + 'a tensor" where
  "cat1 ts =
     (case ts of
        [] \<Rightarrow> Inl RuntimeError
      | t # _ \<Rightarrow>
          (case dims t of
             n # c # rest \<Rightarrow>
               if list_all (\<lambda>u. length (dims u) = length (dims t) \<and> hd (dims u) = n
                                \<and> drop 2 (dims u) = rest) ts
               then Inr \<lparr>dims = n # sum_list (map (\<lambda>u. dims u ! 1) ts) # rest,
                         elems = concat (map (\<lambda>b. concat (map (\<lambda>u. batch_block u b) ts)) [0..<n])\<rparr>
               else Inl RuntimeError
           | _ \<Rightarrow> Inl IndexError))"

text \<open>The results of a list of calls, or the first exception.\<close>

fun collect :: "(error + 'a) list \<Rightarrow> error + 'a list" where
  "collect [] = Inr []"
| "collect (r # rs) = and_then r (\<lambda>x. and_then (collect rs) (\<lambda>xs. Inr (x # xs)))"

text \<open>
  The two \<open>Conv\<close> modules \<open>cv1\<close> and \<open>cv2\<close> of a layer are parameters: two layers with the
  same weights have the same two functions. \<open>k\<close> is the constructor argument.
\<close>

definition SPP_forward ::
  "(('a::linorder) tensor \<Rightarrow> error + 'a tensor) \<Rightarrow> ('a tensor \<Rightarrow> error + 'a tensor)
     \<Rightarrow> nat list \<Rightarrow> 'a tensor \<Rightarrow> error + 'a tensor" where
  "SPP_forward cv1 cv2 k x =
     and_then (cv1 x) (\<lambda>x.
     and_then (collect (map (\<lambda>m. max_pool2d m x) k)) (\<lambda>ys.
     and_then (cat1 ([x] @ ys)) cv2))"

definition SPPF_forward ::
  "(('a::linorder) tensor \<Rightarrow> error + 'a tensor) \<Rightarrow> ('a tensor \<Rightarrow> error + 'a tensor)
     \<Rightarrow> nat \<Rightarrow> 'a tensor \<Rightarrow> error + 'a tensor" where
  "SPPF_forward cv1 cv2 k x =
     and_then (cv1 x) (\<lambda>x.
     and_then (max_pool2d k x) (\<lambda>y1.
     and_then (max_pool2d k y1) (\<lambda>y2.
     and_then (max_pool2d k y2) (\<lambda>y3.
     and_then (cat1 [x, y1, y2, y3]) cv2))))"

text \<open>Concrete tensors, used for concrete evaluations only.\<close>

definition demo_plane :: "int tensor" where
  "demo_plane = \<lparr>dims = [1, 1, 3, 4], elems = [0, 5, 2, 3, 4, 1, 9, 7, 8, 2, 3, - 1]\<rparr>"

definition demo_wide :: "nat tensor" where
  "demo_wide = \<lparr>dims = [1, 1, 2, 4], elems = [0, 1, 2, 3, 4, 5, 6, 7]\<rparr>"

definition demo_deep :: "nat tensor" where
  "demo_deep = \<lparr>dims = [1, 4, 1, 2], elems = [0, 1, 2, 3, 4, 5, 6, 7]\<rparr>"

section \<open>Channel attention: SE, ECA and ChannelAttention\<close>



definition map_tensor :: "('a \<Rightarrow> 'b) \<Rightarrow> 'a tensor \<Rightarrow> 'b tensor" where
  "map_tensor f t = \<lparr>dims = dims t, elems = map f (elems t)\<rparr>"













subsection \<open>SE (lines 935-951, and the class of the same name of lines 1129-1144)\<close>




subsection \<open>ECA (lines 991-1018)\<close>



subsection \<open>ChannelAttention (lines 747-775) and its use in CBAMBottleneck (line 814)\<close>











section \<open>CoAtNet (lines 1110-1369)\<close>

text \<open>
  The three kinds of block that a stage is made of: \<open>conv_3x3_bn\<close>, \<open>MBConv\<close> and
  \<open>Transformer\<close>. A block is described by the arguments it was constructed with.
\<close>

datatype block_kind = Conv3x3BN | MBConvBlock | TransformerBlock

record block_spec =
  kind :: block_kind
  inp :: nat
  oup :: nat
  image_size :: "nat \<times> nat"
  downsample :: bool




record coatnet =
  s0 :: "block_spec list"
  s1 :: "block_spec list"
  s2 :: "block_spec list"
  s3 :: "block_spec list"
  s4 :: "block_spec list"
  pool_kernel :: nat
  fc_in :: nat
  fc_out :: nat









section \<open>AutoShape (lines 532-621) and Detections (lines 624-641)\<close>

subsection \<open>Non-max suppression\<close>

text \<open>
  A detection is a row \<open>(xyxy, conf, cls)\<close> of a prediction tensor: a box by its corners, a
  confidence and a class.
\<close>

record detection =
  det_box :: "real \<times> real \<times> real \<times> real"
  det_conf :: real
  det_cls :: nat

definition box_area :: "real \<times> real \<times> real \<times> real \<Rightarrow> real" where
  "box_area b = (case b of (x1, y1, x2, y2) \<Rightarrow> (x2 - x1) * (y2 - y1))"

definition box_iou :: "real \<times> real \<times> real \<times> real \<Rightarrow> real \<times> real \<times> real \<times> real \<Rightarrow> real" where
  "box_iou a b =
     (case a of (ax1, ay1, ax2, ay2) \<Rightarrow>
      case b of (bx1, by1, bx2, by2) \<Rightarrow>
        let inter = max 0 (min ax2 bx2 - max ax1 bx1) * max 0 (min ay2 by2 - max ay1 by1)
        in inter / (box_area a + box_area b - inter))"

text \<open>
  Two detections are duplicates of one object when their boxes overlap by more than the
  IoU threshold and, unless the suppression is class-agnostic, they are of one class.
\<close>

definition duplicates :: "real \<Rightarrow> bool \<Rightarrow> detection \<Rightarrow> detection \<Rightarrow> bool" where
  "duplicates iou_thres agnostic' d e \<longleftrightarrow>
     (agnostic' \<or> det_cls d = det_cls e) \<and> box_iou (det_box d) (det_box e) > iou_thres"

function suppress :: "real \<Rightarrow> bool \<Rightarrow> detection list \<Rightarrow> detection list" where
  "suppress iou_thres agnostic' [] = []"
| "suppress iou_thres agnostic' (d # ds) =
     d # suppress iou_thres agnostic' (filter (\<lambda>e. \<not> duplicates iou_thres agnostic' d e) ds)"
  by pat_completeness auto
termination
  by (relation "measure (\<lambda>(iou_thres, agnostic', ds). length ds)") (auto simp: less_Suc_eq_le)

text \<open>
  Modelled from the spec: \<open>utils.general.non_max_suppression\<close> is not part of the source
  file. The spec calls it the post-processing step removing overlapping duplicate
  detections, and the comments of the class attributes that \<open>AutoShape.forward\<close> passes to
  it name a confidence threshold, an IoU threshold, an optional list of classes to keep,
  class-agnostic suppression and the maximum number of detections per image. For each
  image, the candidates above the confidence threshold and of a kept class are ordered
  by falling confidence, a candidate that duplicates a kept one is removed, and at most
  \<open>max_det\<close> are returned. The argument is the list of candidates of each image.
\<close>

definition non_max_suppression ::
  "detection list list \<Rightarrow> real \<Rightarrow> real \<Rightarrow> nat list option \<Rightarrow> bool \<Rightarrow> nat
     \<Rightarrow> detection list list" where
  "non_max_suppression prediction conf_thres iou_thres classes' agnostic' max_det' =
     map (\<lambda>dets.
            take max_det'
              (suppress iou_thres agnostic'
                 (sort_key (\<lambda>d. - det_conf d)
                    (filter (\<lambda>d. det_conf d > conf_thres
                                \<and> (case classes' of None \<Rightarrow> True | Some cs \<Rightarrow> det_cls d \<in> set cs))
                       dets))))
         prediction"

subsection \<open>The wrapper and what it reads from outside the source file\<close>

datatype wrapped_model = Backend detect_multi_backend | TorchModule

text \<open>
  The class attributes of lines 534-540 and the instance attributes that \<open>__init__\<close>
  sets. \<open>is_pt\<close> is the attribute \<open>pt\<close>.
\<close>

record autoshape =
  conf :: real
  iou :: real
  agnostic :: bool
  multi_label :: bool
  classes :: "nat list option"
  max_det :: nat
  amp :: bool
  dmb :: bool
  is_pt :: bool
  model :: wrapped_model
  names :: "string list"
  stride :: nat

definition AutoShape_init :: "wrapped_model \<Rightarrow> string list \<Rightarrow> nat \<Rightarrow> autoshape" where
  "AutoShape_init m names' stride' =
     \<lparr>conf = 0.25, iou = 0.45, agnostic = False, multi_label = False, classes = None,
      max_det = 1000, amp = False,
      dmb = (case m of Backend _ \<Rightarrow> True | TorchModule \<Rightarrow> False),
      is_pt = (case m of Backend b \<Rightarrow> pt (flags b) | TorchModule \<Rightarrow> True),
      model = m, names = names', stride = stride'\<rparr>"

text \<open>
  An input of \<open>forward\<close>: a file name or URI, a PIL image (its \<open>filename\<close> attribute, when it
  has one, and the array that \<open>np.asarray(exif_transpose(im))\<close> gives), or a numpy array.
\<close>

datatype 'd source =
    FileOrUri string
  | PilImage "string option" "'d array"
  | NumpyImage "'d array"

datatype 'd images = TensorInput "'d array" | OneImage "'d source" | ImageList "'d source list"

text \<open>
  The library functions that \<open>forward\<close> calls, as parameters:
  \<^item> \<open>open_image\<close>: \<open>Image.open\<close> of a file or of the response to a request, and the array
    of the image after \<open>exif_transpose\<close>; it can raise;
  \<^item> \<open>transpose_chw\<close>, \<open>first_channels\<close>, \<open>tile_channels\<close>: the contents of
    \<open>im.transpose((1, 2, 0))\<close>, \<open>im[..., :3]\<close> and \<open>np.tile(im[..., None], 3)\<close>;
  \<^item> \<open>make_divisible\<close> and \<open>letterbox\<close> (with \<open>auto=False\<close>, its first result), of
    \<open>utils.general\<close> and \<open>utils.dataloaders\<close>;
  \<^item> \<open>stack_bchw\<close>: the content of \<open>np.array(x).transpose((0, 3, 1, 2))\<close>;
  \<^item> \<open>div255\<close>: the content of the batch divided by 255;
  \<^item> \<open>time_sync\<close>: the clock at its \<open>k\<close>-th reading;
  \<^item> \<open>torch_module\<close>: the wrapped model when it is not a \<open>DetectMultiBackend\<close>;
  \<^item> \<open>param_device\<close>: the device of the first parameter of a PyTorch model;
  \<^item> \<open>candidates\<close>: the candidate detections that a prediction tensor holds for each
    image (with several labels per box when \<open>multi_label\<close> is set);
  \<^item> \<open>scale_coords\<close>, of \<open>utils.general\<close>: a box of the inference shape, in the
    coordinates of an original image shape.
\<close>

record 'd autoshape_env =
  open_image :: "string \<Rightarrow> error + 'd array"
  transpose_chw :: "'d \<Rightarrow> 'd"
  first_channels :: "'d \<Rightarrow> 'd"
  tile_channels :: "'d \<Rightarrow> 'd"
  make_divisible :: "real \<Rightarrow> nat \<Rightarrow> nat"
  letterbox :: "'d array \<Rightarrow> nat list \<Rightarrow> 'd array"
  stack_bchw :: "'d list \<Rightarrow> 'd"
  div255 :: "'d \<Rightarrow> 'd"
  time_sync :: "nat \<Rightarrow> real"
  torch_module :: "'d array \<Rightarrow> bool \<Rightarrow> bool \<Rightarrow> 'd array list"
  param_device :: device
  candidates :: "bool \<Rightarrow> 'd array \<Rightarrow> detection list list"
  scale_coords ::
    "nat list \<Rightarrow> real \<times> real \<times> real \<times> real \<Rightarrow> nat list \<Rightarrow> real \<times> real \<times> real \<times> real"

subsection \<open>Pre-processing (lines 580-601)\<close>

text \<open>\<open>str(i)\<close> for \<open>i \<ge> 0\<close>.\<close>

function string_of_nat :: "nat \<Rightarrow> string" where
  "string_of_nat n =
     (if n < 10 then [''0123456789'' ! n]
      else string_of_nat (n div 10) @ [''0123456789'' ! (n mod 10)])"
  by pat_completeness auto
termination
  by (relation "measure id") auto

text \<open>
  \<open>Path(f).with_suffix('.jpg').name\<close>: the last suffix of the name of \<open>f\<close> is replaced by
  \<open>.jpg\<close> (a suffix starts at the last dot of the name, unless that dot is the first or
  the last character); it raises \<open>ValueError\<close> for an empty name.
\<close>

definition path_suffix :: "string \<Rightarrow> string" where
  "path_suffix name =
     (let ext = takeWhile (\<lambda>c. c \<noteq> CHR ''.'') (rev name) in
      if CHR ''.'' \<in> set name \<and> ext \<noteq> [] \<and> length ext + 1 < length name
      then CHR ''.'' # rev ext else [])"

definition jpg_name :: "string \<Rightarrow> error + string" where
  "jpg_name f =
     (let name = path_name f in
      if name = [] then Inl ValueError
      else Inr (take (length name - length (path_suffix name)) name @ ''.jpg''))"

text \<open>
  Lines 590-591: an array whose first dimension is below 5 is taken for CHW and
  transposed, which raises unless it has three dimensions.
\<close>

definition to_hwc :: "'d autoshape_env \<Rightarrow> 'd array \<Rightarrow> error + 'd array" where
  "to_hwc env im =
     (case shape_of im of
        [] \<Rightarrow> Inl IndexError
      | d0 # _ \<Rightarrow>
          if d0 < 5 then
            (case shape_of im of
               [c, h, w] \<Rightarrow> Inr (NdArray [h, w, c] (transpose_chw env (content_of im)))
             | _ \<Rightarrow> Inl ValueError)
          else Inr im)"

text \<open>Line 592: \<open>im[..., :3] if im.ndim == 3 else np.tile(im[..., None], 3)\<close>.\<close>

definition three_channels :: "'d autoshape_env \<Rightarrow> 'd array \<Rightarrow> 'd array" where
  "three_channels env im =
     (if length (shape_of im) = 3
      then NdArray (butlast (shape_of im) @ [min (last (shape_of im)) 3])
             (first_channels env (content_of im))
      else NdArray (shape_of im @ [3]) (tile_channels env (content_of im)))"

text \<open>
  One round of the loop of lines 582-597: the image, its file name, its shape \<open>s\<close> and
  the entry of \<open>shape1\<close>.
\<close>

definition prepare_image ::
  "'d autoshape_env \<Rightarrow> nat \<Rightarrow> nat \<times> 'd source
     \<Rightarrow> error + 'd array \<times> string \<times> nat list \<times> real list" where
  "prepare_image env size' isrc =
     (case isrc of (i, src) \<Rightarrow>
      let f0 = ''image'' @ string_of_nat i in
      and_then (case src of
                  FileOrUri path \<Rightarrow> and_then (open_image env path) (\<lambda>im. Inr (im, path))
                | PilImage filename im \<Rightarrow>
                    Inr (im, case filename of
                               None \<Rightarrow> f0
                             | Some name \<Rightarrow> if name = [] then f0 else name)
                | NumpyImage im \<Rightarrow> Inr (im, f0)) (\<lambda>(im, f).
      and_then (jpg_name f) (\<lambda>file.
      and_then (to_hwc env im) (\<lambda>im.
        let im = three_channels env im;
            s = take 2 (shape_of im)
        in if Max (set s) = 0 then Inl ZeroDivisionError
           else
             let g = real size' / real (Max (set s))
             in Inr (im, file, s, map (\<lambda>y. real y * g) s)))))"

text \<open>
  Lines 598-601. \<open>np.array(shape1).max(0)\<close> raises \<open>ValueError\<close> for an empty list.
  \<open>np.array(x).transpose((0, 3, 1, 2))\<close> raises \<open>ValueError\<close> unless the padded images
  have one shape, of three dimensions.
\<close>

record 'd prepared =
  p_imgs :: "'d array list"
  p_files :: "string list"
  p_shape0 :: "nat list list"
  p_shape1 :: "nat list"
  p_padded :: "'d array list"
  p_x :: "'d array"

definition model_device :: "'d autoshape_env \<Rightarrow> autoshape \<Rightarrow> device" where
  "model_device env self =
     (if is_pt self then param_device env
      else (case model self of Backend b \<Rightarrow> device b | TorchModule \<Rightarrow> param_device env))"

definition stack_batch ::
  "'d autoshape_env \<Rightarrow> device \<Rightarrow> 'd array list \<Rightarrow> error + 'd array" where
  "stack_batch env dev padded =
     (case padded of
        [] \<Rightarrow> Inl ValueError
      | first # _ \<Rightarrow>
          if list_all (\<lambda>im. shape_of im = shape_of first) padded then
            (case shape_of first of
               [h, w, c] \<Rightarrow>
                 Inr (TorchTensor dev [length padded, c, h, w]
                        (div255 env (stack_bchw env (map content_of padded))))
             | _ \<Rightarrow> Inl ValueError)
          else Inl ValueError)"

definition preprocess ::
  "'d autoshape_env \<Rightarrow> autoshape \<Rightarrow> nat \<Rightarrow> 'd source list \<Rightarrow> error + 'd prepared" where
  "preprocess env self size' srcs =
     and_then (collect (map (prepare_image env size') (enumerate 0 srcs))) (\<lambda>rows.
       if rows = [] then Inl ValueError
       else
         let imgs = map (\<lambda>(im, file, s, scaled). im) rows;
             files = map (\<lambda>(im, file, s, scaled). file) rows;
             shape0 = map (\<lambda>(im, file, s, scaled). s) rows;
             scaled = map (\<lambda>(im, file, s, scaled). scaled) rows;
             shape1 = map (\<lambda>k. let x = Max (set (map (\<lambda>r. r ! k) scaled)) in
                                 if is_pt self then make_divisible env x (stride self)
                                 else size')
                          [0, 1];
             padded = map (\<lambda>im. letterbox env im shape1) imgs
         in and_then (stack_batch env (model_device env self) padded) (\<lambda>x.
              Inr \<lparr>p_imgs = imgs, p_files = files, p_shape0 = shape0, p_shape1 = shape1,
                   p_padded = padded, p_x = x\<rparr>))"

subsection \<open>Inference and post-processing (lines 604-621)\<close>

text \<open>
  \<open>self.model(x, augment, profile)\<close>, and the prediction that \<open>non_max_suppression\<close>
  receives: \<open>y\<close> for a \<open>DetectMultiBackend\<close> (\<open>profile\<close> is its argument \<open>visualize\<close>, and
  \<open>val\<close> is \<open>False\<close>) and \<open>y[0]\<close> otherwise.
\<close>

definition run_model ::
  "'d autoshape_env \<Rightarrow> 'd vendor \<Rightarrow> autoshape \<Rightarrow> 'd array \<Rightarrow> bool \<Rightarrow> bool \<Rightarrow> error + 'd array" where
  "run_model env v self x augment profile =
     (case model self of
        Backend b \<Rightarrow>
          (case snd (DetectMultiBackend_forward v b x augment profile False) of
             Inl e \<Rightarrow> Inl e
           | Inr (Plain y) \<Rightarrow> Inr y
           | Inr (WithVal y _) \<Rightarrow> Inr y)
      | TorchModule \<Rightarrow> first_item (torch_module env x augment profile))"

text \<open>
  Lines 617-618: the boxes of the first \<open>n\<close> predictions are rescaled in place, which does
  not change the number of rows; \<open>y[i]\<close> raises \<open>IndexError\<close> when there are fewer than \<open>n\<close>
  predictions, after the boxes of the predictions that there are have been rescaled.
\<close>

definition rescale ::
  "'d autoshape_env \<Rightarrow> nat list \<Rightarrow> nat list list \<Rightarrow> detection list list
     \<Rightarrow> error + detection list list" where
  "rescale env shape1 shape0 y =
     (if length y < length shape0 then Inl IndexError
      else Inr (map (\<lambda>i. map (\<lambda>d. d\<lparr>det_box := scale_coords env shape1 (det_box d) (shape0 ! i)\<rparr>)
                             (y ! i))
                    [0..<length shape0]
                @ drop (length shape0) y))"

text \<open>
  The attributes of \<open>Detections\<close> that do not depend on helpers outside the source file
  (\<open>xywh\<close>, \<open>xyxyn\<close>, \<open>xywhn\<close> and \<open>t\<close> are left out). \<open>pred[0].device\<close> raises \<open>IndexError\<close>
  for an empty list of predictions, and \<open>im.shape[1]\<close> for an image of fewer than two
  dimensions.
\<close>

record 'd detections =
  d_imgs :: "'d array list"
  d_pred :: "detection list list"
  d_names :: "string list"
  d_files :: "string list"
  d_times :: "real list"
  d_xyxy :: "detection list list"
  d_n :: nat
  d_s :: "nat list"

definition Detections_init ::
  "'d array list \<Rightarrow> detection list list \<Rightarrow> string list \<Rightarrow> real list \<Rightarrow> string list \<Rightarrow> nat list
     \<Rightarrow> error + 'd detections" where
  "Detections_init imgs pred files times' names' shape =
     (if pred = [] \<or> \<not> list_all (\<lambda>im. 2 \<le> length (shape_of im)) imgs then Inl IndexError
      else Inr \<lparr>d_imgs = imgs, d_pred = pred, d_names = names', d_files = files,
                d_times = times', d_xyxy = pred, d_n = length pred, d_s = shape\<rparr>)"

text \<open>
  The stages of one call of \<open>forward\<close>, in the order in which they ran: pre-processing
  (with the number of images and the common inference shape), the forward pass (with the
  shape of the batch), non-max suppression (with its arguments), and the rescaling of the
  boxes of one image (with the inference shape and the shape of the original image).
\<close>

datatype stage =
    PreProcess nat "nat list"
  | ForwardPass "nat list"
  | NonMaxSuppression real real "nat list option" bool bool nat
  | ScaleCoords nat "nat list" "nat list"

datatype 'd forward_output =
    BackendOutput "'d forward_result"
  | ModuleOutput "'d array list"
  | Results "'d detections"

definition forward_tensor ::
  "'d autoshape_env \<Rightarrow> 'd vendor \<Rightarrow> autoshape \<Rightarrow> 'd array \<Rightarrow> bool \<Rightarrow> bool
     \<Rightarrow> stage list \<times> (error + 'd forward_output)" where
  "forward_tensor env v self imgs augment profile =
     (let x = TorchTensor (model_device env self) (shape_of imgs) (content_of imgs) in
      ([ForwardPass (shape_of x)],
       case model self of
         Backend b \<Rightarrow>
           (case snd (DetectMultiBackend_forward v b x augment profile False) of
              Inl e \<Rightarrow> Inl e
            | Inr r \<Rightarrow> Inr (BackendOutput r))
       | TorchModule \<Rightarrow> Inr (ModuleOutput (torch_module env x augment profile))))"

definition forward_images ::
  "'d autoshape_env \<Rightarrow> 'd vendor \<Rightarrow> autoshape \<Rightarrow> 'd source list \<Rightarrow> nat \<Rightarrow> bool \<Rightarrow> bool
     \<Rightarrow> stage list \<times> (error + 'd forward_output)" where
  "forward_images env v self srcs size' augment profile =
     (case preprocess env self size' srcs of
        Inl e \<Rightarrow> ([], Inl e)
      | Inr p \<Rightarrow>
          let n = length srcs;
              ran1 = [PreProcess n (p_shape1 p), ForwardPass (shape_of (p_x p))]
          in
          (case run_model env v self (p_x p) augment profile of
             Inl e \<Rightarrow> (ran1, Inl e)
           | Inr y \<Rightarrow>
               let ran2 = ran1 @ [NonMaxSuppression (conf self) (iou self) (classes self)
                                      (agnostic self) (multi_label self) (max_det self)];
                   y = non_max_suppression (candidates env (multi_label self) y) (conf self)
                         (iou self) (classes self) (agnostic self) (max_det self)
               in
               (case rescale env (p_shape1 p) (p_shape0 p) y of
                  Inl e \<Rightarrow>
                    (ran2 @ map (\<lambda>i. ScaleCoords i (p_shape1 p) (p_shape0 p ! i))
                              [0..<length y],
                     Inl e)
                | Inr y \<Rightarrow>
                    (ran2 @ map (\<lambda>i. ScaleCoords i (p_shape1 p) (p_shape0 p ! i)) [0..<n],
                     case Detections_init (p_imgs p) y (p_files p)
                            (map (time_sync env) [0, 1, 2, 3]) (names self) (shape_of (p_x p)) of
                       Inl e \<Rightarrow> Inl e
                     | Inr d \<Rightarrow> Inr (Results d)))))"

text \<open>
  \<open>isinstance(imgs, torch.Tensor)\<close>, and the list of line 580:
  \<open>list(imgs) if isinstance(imgs, (list, tuple)) else [imgs]\<close>.
\<close>

fun is_tensor :: "'d images \<Rightarrow> bool" where
  "is_tensor (TensorInput _) = True"
| "is_tensor (OneImage _) = False"
| "is_tensor (ImageList _) = False"

fun image_list :: "'d images \<Rightarrow> 'd source list" where
  "image_list (TensorInput _) = []"
| "image_list (OneImage src) = [src]"
| "image_list (ImageList srcs) = srcs"

definition AutoShape_forward ::
  "'d autoshape_env \<Rightarrow> 'd vendor \<Rightarrow> autoshape \<Rightarrow> 'd images \<Rightarrow> nat \<Rightarrow> bool \<Rightarrow> bool
     \<Rightarrow> stage list \<times> (error + 'd forward_output)" where
  "AutoShape_forward env v self imgs size' augment profile =
     (case imgs of
        TensorInput t \<Rightarrow> forward_tensor env v self t augment profile
      | OneImage src \<Rightarrow> forward_images env v self [src] size' augment profile
      | ImageList srcs \<Rightarrow> forward_images env v self srcs size' augment profile)"

text \<open>The stage of the pipeline that an entry of the list belongs to.\<close>

datatype stage_kind = Pre | Fwd | Nms | Scale

fun kind_of :: "stage \<Rightarrow> stage_kind" where
  "kind_of (PreProcess _ _) = Pre"
| "kind_of (ForwardPass _) = Fwd"
| "kind_of (NonMaxSuppression _ _ _ _ _ _) = Nms"
| "kind_of (ScaleCoords _ _ _) = Scale"

subsection \<open>A concrete run\<close>

text \<open>
  Library functions that return fixed values, a wrapper around the OpenCV DNN instance of
  the concrete environment, and two images: a file that opens as a 1080x810 RGB image and
  a grey 720x1280 array. Used for concrete evaluations only.
\<close>

definition demo_candidates :: "detection list list" where
  "demo_candidates =
     [[\<lparr>det_box = (0, 0, 10, 10), det_conf = 0.9, det_cls = 0\<rparr>,
       \<lparr>det_box = (1, 1, 10, 10), det_conf = 0.8, det_cls = 0\<rparr>,
       \<lparr>det_box = (20, 20, 30, 30), det_conf = 0.5, det_cls = 1\<rparr>],
      [\<lparr>det_box = (5, 5, 8, 8), det_conf = 0.1, det_cls = 0\<rparr>]]"

definition demo_autoshape_env :: "nat autoshape_env" where
  "demo_autoshape_env =
     \<lparr>open_image = (\<lambda>path. if path = ''data/bus.jpg'' then Inr (NdArray [1080, 810, 3] 21)
                             else Inl LibraryError),
      transpose_chw = (\<lambda>d. d), first_channels = (\<lambda>d. d), tile_channels = (\<lambda>d. d),
      make_divisible = (\<lambda>x s. s),
      letterbox = (\<lambda>im shape1. NdArray (shape1 @ [last (shape_of im)]) (content_of im)),
      stack_bchw = sum_list, div255 = (\<lambda>d. d), time_sync = real,
      torch_module = (\<lambda>x augment profile. []), param_device = CPU,
      candidates = (\<lambda>multi_label' y. demo_candidates),
      scale_coords = (\<lambda>shape1 b shape0. b)\<rparr>"

definition demo_autoshape :: autoshape where
  "demo_autoshape = AutoShape_init (Backend demo_dnn_instance) [''fish'', ''coral''] 32"

definition demo_sources :: "nat source list" where
  "demo_sources = [FileOrUri ''data/bus.jpg'', NumpyImage (NdArray [720, 1280] 22)]"


section \<open>Supporting lemmas\<close>

lemma str_in_iff: "str_in s p \<longleftrightarrow> (\<exists>a b. p = a @ s @ b)"
proof (induction p)
  case Nil
  then show ?case by auto
next
  case (Cons c cs)
  show ?case
  proof
    assume "str_in s (c # cs)"
    then consider "prefix s (c # cs)" | "str_in s cs" by auto
    then show "\<exists>a b. c # cs = a @ s @ b"
    proof cases
      case 1
      then obtain b where "c # cs = s @ b" by (auto simp: prefix_def)
      then have "c # cs = [] @ s @ b" by simp
      then show ?thesis by blast
    next
      case 2
      with Cons.IH obtain a b where "cs = a @ s @ b" by blast
      then have "c # cs = (c # a) @ s @ b" by simp
      then show ?thesis by blast
    qed
  next
    assume "\<exists>a b. c # cs = a @ s @ b"
    then obtain a b where ab: "c # cs = a @ s @ b" by blast
    show "str_in s (c # cs)"
    proof (cases a)
      case Nil
      with ab have "prefix s (c # cs)" by (simp add: prefix_def)
      then show ?thesis by simp
    next
      case (Cons a0 as)
      with ab have "cs = as @ s @ b" by simp
      with Cons.IH have "str_in s cs" by blast
      then show ?thesis by simp
    qed
  qed
qed

lemma list11:
  assumes "length (xs :: 'a list) = 11"
  shows "xs = [xs ! 0, xs ! 1, xs ! 2, xs ! 3, xs ! 4, xs ! 5, xs ! 6, xs ! 7, xs ! 8, xs ! 9, xs ! 10]"
  using assms by (auto simp: list_eq_iff_nth_eq nth_Cons' less_Suc_eq numeral_eq_Suc)

subsection \<open>DetectMultiBackend\<close>

lemmas branch_defs =
  forward_pt_def forward_jit_def forward_dnn_def forward_onnx_def forward_xml_def
  forward_engine_def forward_coreml_def forward_tf_def

lemma dispatch_calls:
  assumes "forward_dispatch v self im augment visualize = (calls, r)"
  shows "\<forall>c \<in> set calls. backend_of c = selected_backend self"
    and "distinct calls"
    and "length (filter runs_inference calls) \<le> 1"
    and "(\<exists>y. r = Inr y) \<longrightarrow> length (filter runs_inference calls) = 1"
  using assms
  by (auto simp: forward_dispatch_def branch_defs selected_backend_def priority_def Let_def
      split: list.splits if_splits prod.splits)

lemma forward_calls:
  "fst (DetectMultiBackend_forward v self im augment visualize val)
     = fst (forward_dispatch v self im augment visualize)"
  by (simp add: DetectMultiBackend_forward_def Let_def split: prod.splits sum.splits)

lemma forward_returns_iff:
  "(\<exists>y. snd (DetectMultiBackend_forward v self im augment visualize val) = Inr y)
     \<longleftrightarrow> (\<exists>y. snd (forward_dispatch v self im augment visualize) = Inr y)"
  by (simp add: DetectMultiBackend_forward_def Let_def split: prod.splits sum.splits)





lemma path_name_onnx: "path_name ''yolov5s.onnx'' = ''yolov5s.onnx''"
  by (simp add: path_name_def path_parts_def)


lemma model_type_onnx:
  "model_type (\<lambda>_ _. True) yolov5_suffixes ''yolov5s.onnx''
     = Inr \<lparr>pt = False, jit = False, onnx = True, xml = False, engine = False,
            coreml = False, saved_model = False, pb = False, tflite = False,
            edgetpu = False, tfjs = False\<rparr>"
  by (simp add: model_type_def yolov5_suffixes_def path_name_onnx)


lemma demo_dnn_init:
  "DetectMultiBackend_init demo_env (WeightsPath ''yolov5s.onnx'') (CUDA 0) True None
     = Inr demo_dnn_instance"
  by (simp add: DetectMultiBackend_init_def demo_env_def first_weights_def and_then_def
      model_type_onnx init_dispatch_def load_runtime_def demo_dnn_instance_def)

lemma demo_dnn_device: "device demo_dnn_instance = CUDA 0"
  by (simp add: demo_dnn_instance_def)

lemma demo_dnn_dispatch:
  "forward_dispatch demo_vendor demo_dnn_instance demo_image False False
     = ([DNN_net_setInput, DNN_net_forward], Inr (NdArray [1, 25200, 85] 4))"
  by (simp add: forward_dispatch_def demo_image_def demo_dnn_instance_def forward_dnn_def
      demo_vendor_def)

subsection \<open>Tensors, Contract and Expand\<close>

lemma ravel_less: "list_all2 (<) idx s \<Longrightarrow> ravel s idx < prod_list s"
proof (induction s arbitrary: idx)
  case Nil
  then show ?case by simp
next
  case (Cons d ds)
  then obtain i is' where idx: "idx = i # is'" and i: "i < d" and r: "list_all2 (<) is' ds"
    by (auto simp: list_all2_Cons2)
  from Cons.IH [OF r] have "ravel ds is' < prod_list ds" .
  moreover have "i * prod_list ds + prod_list ds \<le> d * prod_list ds"
    using i by (metis Suc_leI mult_Suc mult_le_mono1 add.commute)
  ultimately show ?case by (simp add: idx)
qed

lemma unravel_ravel: "list_all2 (<) idx s \<Longrightarrow> unravel s (ravel s idx) = idx"
proof (induction s arbitrary: idx)
  case Nil
  then show ?case by simp
next
  case (Cons d ds)
  then obtain i is' where idx: "idx = i # is'" and i: "i < d" and r: "list_all2 (<) is' ds"
    by (auto simp: list_all2_Cons2)
  have lt: "ravel ds is' < prod_list ds" by (rule ravel_less [OF r])
  show ?case using Cons.IH [OF r] lt by (simp add: idx)
qed

lemma unravel_bounds: "n < prod_list s \<Longrightarrow> list_all2 (<) (unravel s n) s"
proof (induction s arbitrary: n)
  case Nil
  then show ?case by simp
next
  case (Cons d ds)
  then have pos: "0 < prod_list ds" by (cases "prod_list ds = 0") auto
  have "n div prod_list ds < d"
    using Cons.prems pos by (simp add: less_mult_imp_div_less mult.commute)
  moreover have "list_all2 (<) (unravel ds (n mod prod_list ds)) ds"
    using pos by (intro Cons.IH) simp
  ultimately show ?case by simp
qed

lemma ravel_unravel: "n < prod_list s \<Longrightarrow> ravel s (unravel s n) = n"
proof (induction s arbitrary: n)
  case Nil
  then show ?case by simp
next
  case (Cons d ds)
  then have pos: "0 < prod_list ds" by (cases "prod_list ds = 0") auto
  have "ravel ds (unravel ds (n mod prod_list ds)) = n mod prod_list ds"
    using pos by (intro Cons.IH) simp
  then show ?case by simp
qed

lemma length_unravel [simp]: "length (unravel s n) = length s"
  by (induction s arbitrary: n) auto

lemma unpermute_Contract:
  "unpermute [0, 3, 5, 1, 2, 4] [v0, v1, v2, v3, v4, v5] = [v0, v3, v4, v1, v5, v2]"
  by (simp add: unpermute_def index_of_def upt_rec)

lemma unpermute_Expand:
  "unpermute [0, 3, 4, 1, 5, 2] [v0, v1, v2, v3, v4, v5] = [v0, v3, v5, v1, v2, v4]"
  by (simp add: unpermute_def index_of_def upt_rec)

lemma unravel6:
  assumes "m < prod_list [a, b, c, d, e, f]"
  obtains u0 u1 u2 u3 u4 u5 where "unravel [a, b, c, d, e, f] m = [u0, u1, u2, u3, u4, u5]"
    and "u0 < a" "u1 < b" "u2 < c" "u3 < d" "u4 < e" "u5 < f"
  using unravel_bounds [OF assms] by (auto simp: list_all2_Cons2)

lemma tensor_eqI:
  assumes "dims s = dims t" and "length (elems s) = length (elems t)"
    and "\<And>m. m < length (elems t) \<Longrightarrow> elems s ! m = elems t ! m"
  shows "s = (t :: 'a tensor)"
  using assms by (cases s, cases t) (auto intro: nth_equalityI)

lemma dims_permute: "dims (permute p t) = map (\<lambda>k. dims t ! k) p"
  by (simp add: permute_def Let_def)

lemma length_elems_permute:
  "length (elems (permute p t)) = prod_list (map (\<lambda>k. dims t ! k) p)"
  by (simp add: permute_def Let_def)

lemma nth_elems_permute:
  "m < prod_list (map (\<lambda>k. dims t ! k) p) \<Longrightarrow>
   elems (permute p t) ! m
     = elems t ! ravel (dims t) (unpermute p (unravel (map (\<lambda>k. dims t ! k) p) m))"
  by (simp add: permute_def Let_def)

lemma nth_elems_permute_at:
  assumes "map (\<lambda>k. dims t ! k) p = s'" and "dims t = s" and "m < prod_list s'"
  shows "elems (permute p t) ! m = elems t ! ravel s (unpermute p (unravel s' m))"
  using assms nth_elems_permute [of m t p] by simp

lemma dims6_Contract:
  "dims t = [a, b, c, d, e, f] \<Longrightarrow> map (\<lambda>k. dims t ! k) [0, 3, 5, 1, 2, 4] = [a, d, f, b, c, e]"
  by simp

lemma dims6_Expand:
  "dims t = [a, b, c, d, e, f] \<Longrightarrow> map (\<lambda>k. dims t ! k) [0, 3, 4, 1, 5, 2] = [a, d, e, b, f, c]"
  by simp

lemma permute_Expand_Contract:
  assumes wf: "wf_tensor t" and S: "dims t = [a, b, c, d, e, f]"
  shows "permute [0, 3, 4, 1, 5, 2] (permute [0, 3, 5, 1, 2, 4] t) = t"
proof (rule tensor_eqI)
  let ?t1 = "permute [0, 3, 5, 1, 2, 4] t"
  have d1: "dims ?t1 = [a, d, f, b, c, e]"
    by (simp only: dims_permute dims6_Contract [OF S])
  have d2: "map (\<lambda>k. dims ?t1 ! k) [0, 3, 4, 1, 5, 2] = [a, b, c, d, e, f]"
    by (rule dims6_Expand [OF d1])
  show "dims (permute [0, 3, 4, 1, 5, 2] ?t1) = dims t"
    by (simp add: dims_permute S)
  have len: "length (elems t) = prod_list [a, b, c, d, e, f]"
    using wf by (simp only: wf_tensor_def S)
  show "length (elems (permute [0, 3, 4, 1, 5, 2] ?t1)) = length (elems t)"
    by (simp add: length_elems_permute dims_permute S len)
  fix m assume "m < length (elems t)"
  then have m: "m < prod_list [a, b, c, d, e, f]" by (simp only: len)
  from unravel6 [OF m] obtain u0 u1 u2 u3 u4 u5
    where u: "unravel [a, b, c, d, e, f] m = [u0, u1, u2, u3, u4, u5]"
      and b: "u0 < a" "u1 < b" "u2 < c" "u3 < d" "u4 < e" "u5 < f" by blast
  have in1: "list_all2 (<) [u0, u3, u5, u1, u2, u4] [a, d, f, b, c, e]" using b by simp
  let ?n = "ravel [a, d, f, b, c, e] [u0, u3, u5, u1, u2, u4]"
  have n: "?n < prod_list [a, d, f, b, c, e]" by (rule ravel_less [OF in1])
  have "elems (permute [0, 3, 4, 1, 5, 2] ?t1) ! m
      = elems ?t1 ! ravel [a, d, f, b, c, e]
          (unpermute [0, 3, 4, 1, 5, 2] (unravel [a, b, c, d, e, f] m))"
    by (rule nth_elems_permute_at [OF d2 d1 m])
  also have "\<dots> = elems ?t1 ! ?n"
    unfolding u unpermute_Expand ..
  also have "\<dots> = elems t ! ravel [a, b, c, d, e, f]
                       (unpermute [0, 3, 5, 1, 2, 4] (unravel [a, d, f, b, c, e] ?n))"
    by (rule nth_elems_permute_at [OF dims6_Contract [OF S] S n])
  also have "\<dots> = elems t ! ravel [a, b, c, d, e, f] [u0, u1, u2, u3, u4, u5]"
    by (simp only: unravel_ravel [OF in1] unpermute_Contract)
  also have "\<dots> = elems t ! m"
    using ravel_unravel [OF m] by (simp only: u)
  finally show "elems (permute [0, 3, 4, 1, 5, 2] ?t1) ! m = elems t ! m" .
qed

lemma permute_Contract_Expand:
  assumes wf: "wf_tensor t" and S: "dims t = [a, b, c, d, e, f]"
  shows "permute [0, 3, 5, 1, 2, 4] (permute [0, 3, 4, 1, 5, 2] t) = t"
proof (rule tensor_eqI)
  let ?t1 = "permute [0, 3, 4, 1, 5, 2] t"
  have d1: "dims ?t1 = [a, d, e, b, f, c]"
    by (simp only: dims_permute dims6_Expand [OF S])
  have d2: "map (\<lambda>k. dims ?t1 ! k) [0, 3, 5, 1, 2, 4] = [a, b, c, d, e, f]"
    by (rule dims6_Contract [OF d1])
  show "dims (permute [0, 3, 5, 1, 2, 4] ?t1) = dims t"
    by (simp add: dims_permute S)
  have len: "length (elems t) = prod_list [a, b, c, d, e, f]"
    using wf by (simp only: wf_tensor_def S)
  show "length (elems (permute [0, 3, 5, 1, 2, 4] ?t1)) = length (elems t)"
    by (simp add: length_elems_permute dims_permute S len)
  fix m assume "m < length (elems t)"
  then have m: "m < prod_list [a, b, c, d, e, f]" by (simp only: len)
  from unravel6 [OF m] obtain u0 u1 u2 u3 u4 u5
    where u: "unravel [a, b, c, d, e, f] m = [u0, u1, u2, u3, u4, u5]"
      and b: "u0 < a" "u1 < b" "u2 < c" "u3 < d" "u4 < e" "u5 < f" by blast
  have in1: "list_all2 (<) [u0, u3, u4, u1, u5, u2] [a, d, e, b, f, c]" using b by simp
  let ?n = "ravel [a, d, e, b, f, c] [u0, u3, u4, u1, u5, u2]"
  have n: "?n < prod_list [a, d, e, b, f, c]" by (rule ravel_less [OF in1])
  have "elems (permute [0, 3, 5, 1, 2, 4] ?t1) ! m
      = elems ?t1 ! ravel [a, d, e, b, f, c]
          (unpermute [0, 3, 5, 1, 2, 4] (unravel [a, b, c, d, e, f] m))"
    by (rule nth_elems_permute_at [OF d2 d1 m])
  also have "\<dots> = elems ?t1 ! ?n"
    unfolding u unpermute_Contract ..
  also have "\<dots> = elems t ! ravel [a, b, c, d, e, f]
                       (unpermute [0, 3, 4, 1, 5, 2] (unravel [a, d, e, b, f, c] ?n))"
    by (rule nth_elems_permute_at [OF dims6_Expand [OF S] S n])
  also have "\<dots> = elems t ! ravel [a, b, c, d, e, f] [u0, u1, u2, u3, u4, u5]"
    by (simp only: unravel_ravel [OF in1] unpermute_Expand)
  also have "\<dots> = elems t ! m"
    using ravel_unravel [OF m] by (simp only: u)
  finally show "elems (permute [0, 3, 5, 1, 2, 4] ?t1) ! m = elems t ! m" .
qed

lemma view_Inr: "prod_list new = length (elems t) \<Longrightarrow> view new t = Inr (t\<lparr>dims := new\<rparr>)"
  by (simp add: view_def)

lemma Contract_forward_eq:
  assumes d: "dims x = [b, c, h, w]" and s: "0 < s"
    and len: "length (elems x) = prod_list [b, c, h div s, s, w div s, s]"
  shows "Contract_forward s x
           = Inr ((permute [0, 3, 5, 1, 2, 4] (x\<lparr>dims := [b, c, h div s, s, w div s, s]\<rparr>))
                    \<lparr>dims := [b, c * s * s, h div s, w div s]\<rparr>)"
proof -
  let ?t0 = "x\<lparr>dims := [b, c, h div s, s, w div s, s]\<rparr>"
  have v1: "view [b, c, h div s, s, w div s, s] x = Inr ?t0"
    by (rule view_Inr) (simp only: len)
  have "prod_list [b, c * s * s, h div s, w div s]
          = length (elems (permute [0, 3, 5, 1, 2, 4] ?t0))"
    by (simp add: length_elems_permute mult_ac)
  then have v2: "view [b, c * s * s, h div s, w div s] (permute [0, 3, 5, 1, 2, 4] ?t0)
          = Inr ((permute [0, 3, 5, 1, 2, 4] ?t0)\<lparr>dims := [b, c * s * s, h div s, w div s]\<rparr>)"
    by (rule view_Inr)
  have s0: "(s = 0) = False" using s by simp
  show ?thesis
    by (simp only: Contract_forward_def d list.case Let_def s0 if_False v1 and_then_def
        sum.case v2)
qed

lemma Expand_forward_eq:
  assumes d: "dims x = [b, c, h, w]" and s: "0 < s"
    and len: "length (elems x) = prod_list [b, s, s, c div s ^ 2, h, w]"
  shows "Expand_forward s x
           = Inr ((permute [0, 3, 4, 1, 5, 2] (x\<lparr>dims := [b, s, s, c div s ^ 2, h, w]\<rparr>))
                    \<lparr>dims := [b, c div s ^ 2, h * s, w * s]\<rparr>)"
proof -
  let ?t0 = "x\<lparr>dims := [b, s, s, c div s ^ 2, h, w]\<rparr>"
  have v1: "view [b, s, s, c div s ^ 2, h, w] x = Inr ?t0"
    by (rule view_Inr) (simp only: len)
  have "prod_list [b, c div s ^ 2, h * s, w * s]
          = length (elems (permute [0, 3, 4, 1, 5, 2] ?t0))"
    by (simp add: length_elems_permute mult_ac)
  then have v2: "view [b, c div s ^ 2, h * s, w * s] (permute [0, 3, 4, 1, 5, 2] ?t0)
          = Inr ((permute [0, 3, 4, 1, 5, 2] ?t0)\<lparr>dims := [b, c div s ^ 2, h * s, w * s]\<rparr>)"
    by (rule view_Inr)
  have s0: "(s ^ 2 = 0) = False" using s by simp
  show ?thesis
    by (simp only: Expand_forward_def d list.case Let_def s0 if_False v1 and_then_def
        sum.case v2)
qed

lemma Contract_then_Expand:
  assumes wf: "wf_tensor x" and d: "dims x = [b, c, h, w]" and s: "0 < s"
    and hs: "s dvd h" and ws: "s dvd w"
  shows "and_then (Contract_forward s x) (Expand_forward s) = Inr x"
proof -
  let ?C = "[b, c, h div s, s, w div s, s]"
  let ?t0 = "x\<lparr>dims := ?C\<rparr>"
  let ?t1 = "permute [0, 3, 5, 1, 2, 4] ?t0"
  let ?t2 = "?t1\<lparr>dims := [b, c * s * s, h div s, w div s]\<rparr>"
  have h: "h div s * s = h" and w: "w div s * s = w" using hs ws by simp_all
  have lenx: "length (elems x) = b * c * h * w"
    using wf by (simp add: wf_tensor_def d mult.assoc)
  have "prod_list ?C = b * c * (h div s * s) * (w div s * s)" by (simp add: mult_ac)
  then have len: "length (elems x) = prod_list ?C" by (simp only: h w lenx)
  have C: "Contract_forward s x = Inr ?t2" by (rule Contract_forward_eq [OF d s len])
  have cdiv: "c * s * s div s ^ 2 = c" using s by (simp add: power2_eq_square mult.assoc)
  have wf0: "wf_tensor ?t0" using len by (simp add: wf_tensor_def)
  have d0: "dims ?t0 = ?C" by simp
  have d1: "dims ?t1 = [b, s, s, c, h div s, w div s]" by (simp add: dims_permute)
  have d2: "dims ?t2 = [b, c * s * s, h div s, w div s]" by simp
  have restore: "(?t2)\<lparr>dims := [b, s, s, c * s * s div s ^ 2, h div s, w div s]\<rparr> = ?t1"
    using d1 unfolding cdiv by (cases ?t1) simp
  have len2: "length (elems ?t2) = prod_list [b, s, s, c * s * s div s ^ 2, h div s, w div s]"
    unfolding cdiv by (simp add: length_elems_permute)
  have E: "Expand_forward s ?t2
      = Inr ((permute [0, 3, 4, 1, 5, 2] ?t1)\<lparr>dims := [b, c * s * s div s ^ 2, h div s * s, w div s * s]\<rparr>)"
    using Expand_forward_eq [OF d2 s len2] by (simp only: restore)
  have "permute [0, 3, 4, 1, 5, 2] ?t1 = ?t0"
    by (rule permute_Expand_Contract [OF wf0 d0])
  moreover have "(?t0)\<lparr>dims := [b, c, h, w]\<rparr> = x"
    using d by (cases x) simp
  ultimately show ?thesis
    by (simp only: C and_then_def sum.case E cdiv h w)
qed

lemma Expand_then_Contract:
  assumes wf: "wf_tensor y" and d: "dims y = [b, c, h, w]" and s: "0 < s"
    and cs: "s ^ 2 dvd c"
  shows "and_then (Expand_forward s y) (Contract_forward s) = Inr y"
proof -
  let ?E = "[b, s, s, c div s ^ 2, h, w]"
  let ?t0 = "y\<lparr>dims := ?E\<rparr>"
  let ?t1 = "permute [0, 3, 4, 1, 5, 2] ?t0"
  let ?t2 = "?t1\<lparr>dims := [b, c div s ^ 2, h * s, w * s]\<rparr>"
  have c: "c div s ^ 2 * s * s = c" using cs by (simp add: power2_eq_square mult.assoc)
  have hd: "h * s div s = h" and wd: "w * s div s = w" using s by simp_all
  have leny: "length (elems y) = b * c * h * w"
    using wf by (simp add: wf_tensor_def d mult.assoc)
  have "prod_list ?E = b * (c div s ^ 2 * s * s) * h * w" by (simp add: mult_ac)
  then have len: "length (elems y) = prod_list ?E" by (simp only: c leny)
  have E: "Expand_forward s y = Inr ?t2" by (rule Expand_forward_eq [OF d s len])
  have wf0: "wf_tensor ?t0" using len by (simp add: wf_tensor_def)
  have d0: "dims ?t0 = ?E" by simp
  have d1: "dims ?t1 = [b, c div s ^ 2, h, s, w, s]" by (simp add: dims_permute)
  have d2: "dims ?t2 = [b, c div s ^ 2, h * s, w * s]" by simp
  have restore: "(?t2)\<lparr>dims := [b, c div s ^ 2, h * s div s, s, w * s div s, s]\<rparr> = ?t1"
    using d1 unfolding hd wd by (cases ?t1) simp
  have len2: "length (elems ?t2) = prod_list [b, c div s ^ 2, h * s div s, s, w * s div s, s]"
    unfolding hd wd by (simp add: length_elems_permute)
  have C: "Contract_forward s ?t2
      = Inr ((permute [0, 3, 5, 1, 2, 4] ?t1)\<lparr>dims := [b, c div s ^ 2 * s * s, h * s div s, w * s div s]\<rparr>)"
    using Contract_forward_eq [OF d2 s len2] by (simp only: restore)
  have "permute [0, 3, 5, 1, 2, 4] ?t1 = ?t0"
    by (rule permute_Contract_Expand [OF wf0 d0])
  moreover have "(?t0)\<lparr>dims := [b, c, h, w]\<rparr> = y"
    using d by (cases y) simp
  ultimately show ?thesis
    by (simp only: E and_then_def sum.case C c hd wd)
qed

subsection \<open>Max pooling\<close>

lemma set_window_odd:
  "set (window (2 * p + 1) n i) = {r. r < n \<and> i \<le> r + p \<and> r \<le> i + p}"
  by (auto simp: window_def)

lemma window_compose:
  assumes "i < n"
  shows "(\<Union>r\<in>set (window (2 * q + 1) n i). set (window (2 * p + 1) n r))
           = set (window (2 * (p + q) + 1) n i)"
proof (intro set_eqI iffI)
  fix x assume "x \<in> (\<Union>r\<in>set (window (2 * q + 1) n i). set (window (2 * p + 1) n r))"
  then show "x \<in> set (window (2 * (p + q) + 1) n i)"
    unfolding set_window_odd by auto
next
  fix x assume "x \<in> set (window (2 * (p + q) + 1) n i)"
  then have x: "x < n" "i \<le> x + (p + q)" "x \<le> i + (p + q)"
    unfolding set_window_odd by auto
  define r where "r = (if i \<le> x then min x (i + q) else max x (i - q))"
  have "r < n \<and> i \<le> r + q \<and> r \<le> i + q \<and> x < n \<and> r \<le> x + p \<and> x \<le> r + p"
    using x assms unfolding r_def by auto
  then show "x \<in> (\<Union>r\<in>set (window (2 * q + 1) n i). set (window (2 * p + 1) n r))"
    unfolding set_window_odd by blast
qed

lemma window_nonempty: "i < n \<Longrightarrow> i \<in> set (window (2 * p + 1) n i)"
  unfolding set_window_odd by simp

lemma Max_of_Max:
  fixes A :: "'b \<Rightarrow> ('a::linorder) set"
  assumes S: "finite S" "S \<noteq> {}" and A: "\<And>x. x \<in> S \<Longrightarrow> finite (A x) \<and> A x \<noteq> {}"
  shows "Max ((\<lambda>x. Max (A x)) ` S) = Max (\<Union>x\<in>S. A x)"
proof (rule sym, rule Max_eqI)
  show "finite (\<Union>x\<in>S. A x)" using S A by auto
  show "\<And>y. y \<in> (\<Union>x\<in>S. A x) \<Longrightarrow> y \<le> Max ((\<lambda>x. Max (A x)) ` S)"
  proof -
    fix y assume "y \<in> (\<Union>x\<in>S. A x)"
    then obtain x where x: "x \<in> S" "y \<in> A x" by blast
    then have "y \<le> Max (A x)" using A by simp
    also have "Max (A x) \<le> Max ((\<lambda>x. Max (A x)) ` S)" using S x by simp
    finally show "y \<le> Max ((\<lambda>x. Max (A x)) ` S)" .
  qed
  have "Max ((\<lambda>x. Max (A x)) ` S) \<in> (\<lambda>x. Max (A x)) ` S"
    using S by (intro Max_in) auto
  then obtain x where x: "x \<in> S" "Max ((\<lambda>x. Max (A x)) ` S) = Max (A x)" by blast
  then have "Max (A x) \<in> A x" using A by (intro Max_in) auto
  with x show "Max ((\<lambda>x. Max (A x)) ` S) \<in> (\<Union>x\<in>S. A x)" by auto
qed

lemma pool_at_odd:
  "pool_at (2 * p + 1) t [n, c, h, w] [b, ch, i, j]
     = Max ((\<lambda>(r, q). elems t ! ravel [n, c, h, w] [b, ch, r, q])
              ` (set (window (2 * p + 1) h i) \<times> set (window (2 * p + 1) w j)))"
proof -
  have "set (concat (map (\<lambda>r. map (\<lambda>q. elems t ! ravel [n, c, h, w] [b, ch, r, q])
                (window (2 * p + 1) w j)) (window (2 * p + 1) h i)))
      = (\<lambda>(r, q). elems t ! ravel [n, c, h, w] [b, ch, r, q])
              ` (set (window (2 * p + 1) h i) \<times> set (window (2 * p + 1) w j))"
    by (auto simp del: ravel.simps)
  then show ?thesis
    by (simp add: pool_at_def del: ravel.simps)
qed

lemma max_pool2d_odd:
  assumes "dims t = [n, c, h, w]" and "c \<noteq> 0" "h \<noteq> 0" "w \<noteq> 0"
  shows "max_pool2d (2 * p + 1) t
           = Inr \<lparr>dims = [n, c, h, w],
                  elems = map (\<lambda>m. pool_at (2 * p + 1) t [n, c, h, w] (unravel [n, c, h, w] m))
                            [0..<prod_list [n, c, h, w]]\<rparr>"
  using assms by (simp add: max_pool2d_def Let_def del: unravel.simps)

lemma max_pool2d_error:
  assumes "\<not> (\<exists>n c h w. dims t = [n, c, h, w] \<and> c \<noteq> 0 \<and> h \<noteq> 0 \<and> w \<noteq> 0)"
  shows "max_pool2d k t = Inl RuntimeError"
  using assms by (auto simp: max_pool2d_def split: list.splits)

lemma unravel4:
  assumes "m < prod_list [n, c, h, w]"
  obtains b ch i j where "unravel [n, c, h, w] m = [b, ch, i, j]"
    and "b < n" "ch < c" "i < h" "j < w"
  using unravel_bounds [OF assms] by (auto simp: list_all2_Cons2)

lemma pool_pool_at:
  fixes t :: "('a::linorder) tensor"
  assumes b: "b < n" "ch < c" "i < h" "j < w"
    and t1_def: "t1 = \<lparr>dims = [n, c, h, w],
                  elems = map (\<lambda>m. pool_at (2 * p + 1) t [n, c, h, w] (unravel [n, c, h, w] m))
                            [0..<prod_list [n, c, h, w]]\<rparr>"
  shows "pool_at (2 * q + 1) t1 [n, c, h, w] [b, ch, i, j]
           = pool_at (2 * (p + q) + 1) t [n, c, h, w] [b, ch, i, j]"
proof -
  let ?D = "[n, c, h, w]"
  let ?F = "\<lambda>(r, s). elems t ! ravel ?D [b, ch, r, s]"
  let ?Wq = "set (window (2 * q + 1) h i) \<times> set (window (2 * q + 1) w j)"
  let ?A = "\<lambda>(r, s). ?F ` (set (window (2 * p + 1) h r) \<times> set (window (2 * p + 1) w s))"
  have inner: "elems t1 ! ravel ?D [b, ch, r, s] = Max (?A (r, s))"
    if "r \<in> set (window (2 * q + 1) h i)" "s \<in> set (window (2 * q + 1) w j)" for r s
  proof -
    have rs: "r < h" "s < w" using that unfolding set_window_odd by auto
    then have in1: "list_all2 (<) [b, ch, r, s] ?D" using b by simp
    have lt: "ravel ?D [b, ch, r, s] < prod_list ?D" by (rule ravel_less [OF in1])
    have "elems t1 ! ravel ?D [b, ch, r, s]
            = pool_at (2 * p + 1) t ?D (unravel ?D (ravel ?D [b, ch, r, s]))"
      unfolding t1_def using lt by (simp del: ravel.simps unravel.simps prod_list.Cons)
    also have "\<dots> = pool_at (2 * p + 1) t ?D [b, ch, r, s]"
      by (simp only: unravel_ravel [OF in1])
    finally show ?thesis by (simp only: pool_at_odd prod.case)
  qed
  have "pool_at (2 * q + 1) t1 ?D [b, ch, i, j]
          = Max ((\<lambda>(r, s). elems t1 ! ravel ?D [b, ch, r, s]) ` ?Wq)"
    by (rule pool_at_odd)
  also have "(\<lambda>(r, s). elems t1 ! ravel ?D [b, ch, r, s]) ` ?Wq = (\<lambda>x. Max (?A x)) ` ?Wq"
    by (rule image_cong) (auto simp only: inner prod.case split_paired_all mem_Sigma_iff)
  also have "Max ((\<lambda>x. Max (?A x)) ` ?Wq) = Max (\<Union>x\<in>?Wq. ?A x)"
  proof (rule Max_of_Max)
    show "finite ?Wq" by simp
    show "?Wq \<noteq> {}" using window_nonempty [of i h q] window_nonempty [of j w q] b by auto
    fix x assume "x \<in> ?Wq"
    then obtain r s where x: "x = (r, s)" and rs: "r < h" "s < w"
      unfolding set_window_odd by auto
    have "(r, s) \<in> set (window (2 * p + 1) h r) \<times> set (window (2 * p + 1) w s)"
      using window_nonempty [of r h p] window_nonempty [of s w p] rs by simp
    then show "finite (?A x) \<and> ?A x \<noteq> {}" unfolding x by auto
  qed
  also have "(\<Union>x\<in>?Wq. ?A x)
      = ?F ` ((\<Union>r\<in>set (window (2 * q + 1) h i). set (window (2 * p + 1) h r))
              \<times> (\<Union>s\<in>set (window (2 * q + 1) w j). set (window (2 * p + 1) w s)))"
    by (auto simp del: ravel.simps)
  also have "\<dots> = ?F ` (set (window (2 * (p + q) + 1) h i) \<times> set (window (2 * (p + q) + 1) w j))"
    using b by (simp only: window_compose)
  also have "Max \<dots> = pool_at (2 * (p + q) + 1) t ?D [b, ch, i, j]"
    by (rule pool_at_odd [symmetric])
  finally show ?thesis .
qed

lemma pool_pool:
  fixes t :: "('a::linorder) tensor"
  shows "and_then (max_pool2d (2 * p + 1) t) (max_pool2d (2 * q + 1))
           = max_pool2d (2 * (p + q) + 1) t"
proof (cases "\<exists>n c h w. dims t = [n, c, h, w] \<and> c \<noteq> 0 \<and> h \<noteq> 0 \<and> w \<noteq> 0")
  case False
  have "max_pool2d (2 * p + 1) t = Inl RuntimeError"
    and "max_pool2d (2 * (p + q) + 1) t = Inl RuntimeError"
    by (rule max_pool2d_error [OF False])+
  then show ?thesis by (simp only: and_then_def sum.case)
next
  case True
  then obtain n c h w where d: "dims t = [n, c, h, w]" and nz: "c \<noteq> 0" "h \<noteq> 0" "w \<noteq> 0"
    by blast
  let ?D = "[n, c, h, w]"
  define t1 where "t1 = \<lparr>dims = ?D,
      elems = map (\<lambda>m. pool_at (2 * p + 1) t ?D (unravel ?D m)) [0..<prod_list ?D]\<rparr>"
  have p1: "max_pool2d (2 * p + 1) t = Inr t1"
    unfolding t1_def by (rule max_pool2d_odd [OF d nz])
  have d1: "dims t1 = ?D" by (simp add: t1_def)
  have p2: "max_pool2d (2 * q + 1) t1
      = Inr \<lparr>dims = ?D,
             elems = map (\<lambda>m. pool_at (2 * q + 1) t1 ?D (unravel ?D m)) [0..<prod_list ?D]\<rparr>"
    by (rule max_pool2d_odd [OF d1 nz])
  have p3: "max_pool2d (2 * (p + q) + 1) t
      = Inr \<lparr>dims = ?D,
             elems = map (\<lambda>m. pool_at (2 * (p + q) + 1) t ?D (unravel ?D m))
                       [0..<prod_list ?D]\<rparr>"
    by (rule max_pool2d_odd [OF d nz])
  have "map (\<lambda>m. pool_at (2 * q + 1) t1 ?D (unravel ?D m)) [0..<prod_list ?D]
      = map (\<lambda>m. pool_at (2 * (p + q) + 1) t ?D (unravel ?D m)) [0..<prod_list ?D]"
  proof (rule map_cong [OF refl])
    fix m assume "m \<in> set [0..<prod_list ?D]"
    then have m: "m < prod_list ?D" by simp
    from unravel4 [OF m] obtain b ch i j
      where u: "unravel ?D m = [b, ch, i, j]" and b: "b < n" "ch < c" "i < h" "j < w"
      by blast
    show "pool_at (2 * q + 1) t1 ?D (unravel ?D m)
            = pool_at (2 * (p + q) + 1) t ?D (unravel ?D m)"
      unfolding u by (rule pool_pool_at [OF b t1_def])
  qed
  then show ?thesis
    by (simp only: p1 p2 p3 and_then_def sum.case)
qed

lemma pool_5_5: "and_then (max_pool2d 5 t) (max_pool2d 5) = max_pool2d 9 t"
  using pool_pool [of 2 t 2] by simp

lemma pool_9_5: "and_then (max_pool2d 9 t) (max_pool2d 5) = max_pool2d 13 t"
  using pool_pool [of 4 t 2] by simp


lemma SPPF_forward_eq_SPP_forward:
  "SPPF_forward cv1 cv2 5 x = SPP_forward cv1 cv2 [5, 9, 13] x"
proof (cases "cv1 x")
  case (Inl e)
  then show ?thesis by (simp add: SPPF_forward_def SPP_forward_def and_then_def)
next
  case (Inr x1)
  show ?thesis
  proof (cases "max_pool2d 5 x1")
    case (Inl e)
    then show ?thesis using Inr by (simp add: SPPF_forward_def SPP_forward_def and_then_def)
  next
    case y1: (Inr y1)
    have p9: "max_pool2d 9 x1 = max_pool2d 5 y1"
      using pool_5_5 [of x1] y1 by (simp add: and_then_def)
    show ?thesis
    proof (cases "max_pool2d 5 y1")
      case (Inl e)
      then show ?thesis using Inr y1 p9
        by (simp add: SPPF_forward_def SPP_forward_def and_then_def)
    next
      case y2: (Inr y2)
      have p13: "max_pool2d 13 x1 = max_pool2d 5 y2"
        using pool_9_5 [of x1] p9 y2 by (simp add: and_then_def)
      show ?thesis using Inr y1 y2 p9 p13
        by (cases "max_pool2d 5 y2") (simp_all add: SPPF_forward_def SPP_forward_def and_then_def)
    qed
  qed
qed

subsection \<open>CoAtNet\<close>

















subsection \<open>Channel attention\<close>




lemma dims_map_tensor [simp]: "dims (map_tensor f t) = dims t"
  by (simp add: map_tensor_def)

lemma elems_map_tensor [simp]: "elems (map_tensor f t) = map f (elems t)"
  by (simp add: map_tensor_def)














subsection \<open>AutoShape\<close>


lemma nms_rows:
  "pr \<in> set (non_max_suppression prediction ct it cl ag md) \<Longrightarrow> length pr \<le> md"
  by (auto simp: non_max_suppression_def)

lemma length_nms [simp]:
  "length (non_max_suppression prediction ct it cl ag md) = length prediction"
  by (simp add: non_max_suppression_def)

lemma rescale_rows:
  assumes "rescale env sh1 sh0 y = Inr y'" and "pr \<in> set y'"
  shows "\<exists>q\<in>set y. length pr = length q"
proof -
  have n: "length sh0 \<le> length y"
    and y': "y' = map (\<lambda>i. map (\<lambda>d. d\<lparr>det_box := scale_coords env sh1 (det_box d) (sh0 ! i)\<rparr>) (y ! i))
                   [0..<length sh0] @ drop (length sh0) y"
    using assms(1) by (auto simp: rescale_def split: if_splits)
  from assms(2) consider
    i where "i < length sh0" "pr = map (\<lambda>d. d\<lparr>det_box := scale_coords env sh1 (det_box d) (sh0 ! i)\<rparr>) (y ! i)"
    | "pr \<in> set (drop (length sh0) y)"
    unfolding y' by auto
  then show ?thesis
  proof cases
    case 1
    then have "y ! i \<in> set y" using n by simp
    with 1 show ?thesis by (intro bexI [of _ "y ! i"]) simp_all
  next
    case 2
    then have "pr \<in> set y" by (rule in_set_dropD)
    then show ?thesis by blast
  qed
qed








lemma map_kind_of_scale:
  "map kind_of (map (\<lambda>i. ScaleCoords i a (f i)) [0..<n]) = replicate n Scale"
  by (simp add: map_replicate_const comp_def)


lemma forward_images_nms:
  assumes "forward_images env v self srcs sz augment profile = (trace, r)"
  shows "\<forall>s\<in>set trace. kind_of s = Nms \<longrightarrow>
           s = NonMaxSuppression (conf self) (iou self) (classes self) (agnostic self)
                 (multi_label self) (max_det self)"
    and "\<forall>d. r = Inr (Results d) \<longrightarrow>
           NonMaxSuppression (conf self) (iou self) (classes self) (agnostic self)
             (multi_label self) (max_det self) \<in> set trace
           \<and> (\<forall>pr\<in>set (d_pred d). length pr \<le> max_det self)"
proof -
  show "\<forall>s\<in>set trace. kind_of s = Nms \<longrightarrow>
           s = NonMaxSuppression (conf self) (iou self) (classes self) (agnostic self)
                 (multi_label self) (max_det self)"
    using assms
    by (auto simp: forward_images_def Let_def split: sum.splits)
  show "\<forall>d. r = Inr (Results d) \<longrightarrow>
           NonMaxSuppression (conf self) (iou self) (classes self) (agnostic self)
             (multi_label self) (max_det self) \<in> set trace
           \<and> (\<forall>pr\<in>set (d_pred d). length pr \<le> max_det self)"
  proof (intro allI impI)
    fix d assume r: "r = Inr (Results d)"
    show "NonMaxSuppression (conf self) (iou self) (classes self) (agnostic self)
             (multi_label self) (max_det self) \<in> set trace
           \<and> (\<forall>pr\<in>set (d_pred d). length pr \<le> max_det self)"
    proof (cases "preprocess env self sz srcs")
      case (Inl e)
      with assms r show ?thesis by (simp add: forward_images_def)
    next
      case p: (Inr p)
      show ?thesis
      proof (cases "run_model env v self (p_x p) augment profile")
        case (Inl e)
        with assms r p show ?thesis by (simp add: forward_images_def Let_def)
      next
        case y: (Inr y)
        let ?nms = "non_max_suppression (candidates env (multi_label self) y) (conf self)
                      (iou self) (classes self) (agnostic self) (max_det self)"
        show ?thesis
        proof (cases "rescale env (p_shape1 p) (p_shape0 p) ?nms")
          case (Inl e)
          with assms r p y show ?thesis by (simp add: forward_images_def Let_def)
        next
          case y': (Inr y')
          from assms r p y y' have d: "d_pred d = y'"
            and t: "NonMaxSuppression (conf self) (iou self) (classes self) (agnostic self)
                      (multi_label self) (max_det self) \<in> set trace"
            by (auto simp: forward_images_def Let_def Detections_init_def split: if_splits)
          have "\<forall>pr\<in>set y'. length pr \<le> max_det self"
          proof
            fix pr assume "pr \<in> set y'"
            from rescale_rows [OF y' this] obtain q where "q \<in> set ?nms" "length pr = length q"
              by blast
            with nms_rows [of q] show "length pr \<le> max_det self" by simp
          qed
          with d t show ?thesis by simp
        qed
      qed
    qed
  qed
qed

lemma AutoShape_forward_images:
  "\<not> is_tensor imgs \<Longrightarrow>
     AutoShape_forward env v self imgs sz augment profile
       = forward_images env v self (image_list imgs) sz augment profile"
  by (cases imgs) (simp_all add: AutoShape_forward_def)

lemma jpg_name_bus: "jpg_name ''data/bus.jpg'' = Inr ''bus.jpg''"
  by (simp add: jpg_name_def path_name_def path_parts_def path_suffix_def)


lemma jpg_name_image1: "jpg_name ''image1'' = Inr ''image1.jpg''"
  by (simp add: jpg_name_def path_name_def path_parts_def path_suffix_def)

lemma demo_prepare_file:
  "prepare_image demo_autoshape_env 640 (0, FileOrUri ''data/bus.jpg'')
     = Inr (NdArray [1080, 810, 3] 21, ''bus.jpg'', [1080, 810], [640, 480])"
  by (simp add: prepare_image_def jpg_name_bus and_then_def demo_autoshape_env_def to_hwc_def
      three_channels_def)

lemma demo_prepare_grey:
  "prepare_image demo_autoshape_env 640 (1, NumpyImage (NdArray [720, 1280] 22))
     = Inr (NdArray [720, 1280, 3] 22, ''image1.jpg'', [720, 1280], [360, 640])"
  by (simp add: prepare_image_def jpg_name_image1 and_then_def demo_autoshape_env_def
      to_hwc_def three_channels_def)


lemma demo_autoshape_fields:
  "is_pt demo_autoshape = False" "model demo_autoshape = Backend demo_dnn_instance"
  "conf demo_autoshape = 1 / 4" "iou demo_autoshape = 9 / 20" "classes demo_autoshape = None"
  "agnostic demo_autoshape = False" "multi_label demo_autoshape = False"
  "max_det demo_autoshape = 1000" "names demo_autoshape = [''fish'', ''coral'']"
  by (simp_all add: demo_autoshape_def AutoShape_init_def demo_dnn_instance_def)

lemma demo_model_device: "model_device demo_autoshape_env demo_autoshape = CUDA 0"
  by (simp add: model_device_def demo_autoshape_fields demo_dnn_device)

lemma demo_letterbox:
  "letterbox demo_autoshape_env im shape1 = NdArray (shape1 @ [last (shape_of im)]) (content_of im)"
  by (simp add: demo_autoshape_env_def)

lemma demo_stack:
  "stack_bchw demo_autoshape_env = sum_list" "div255 demo_autoshape_env = (\<lambda>d. d)"
  by (simp_all add: demo_autoshape_env_def)

lemma demo_preprocess:
  "preprocess demo_autoshape_env demo_autoshape 640 demo_sources
     = Inr \<lparr>p_imgs = [NdArray [1080, 810, 3] 21, NdArray [720, 1280, 3] 22],
            p_files = [''bus.jpg'', ''image1.jpg''],
            p_shape0 = [[1080, 810], [720, 1280]], p_shape1 = [640, 640],
            p_padded = [NdArray [640, 640, 3] 21, NdArray [640, 640, 3] 22],
            p_x = TorchTensor (CUDA 0) [2, 3, 640, 640] 43\<rparr>"
  by (simp add: preprocess_def demo_sources_def enumerate_eq_zip upt_rec demo_prepare_file
      demo_prepare_grey [unfolded One_nat_def] and_then_def demo_autoshape_fields demo_model_device demo_letterbox
      stack_batch_def demo_stack)


lemma demo_run_model:
  "run_model demo_autoshape_env demo_vendor demo_autoshape (TorchTensor (CUDA 0) [b, c, h, w] d)
     False False = Inr (TorchTensor (CUDA 0) [1, 25200, 85] 4)"
  by (simp add: run_model_def demo_autoshape_fields DetectMultiBackend_forward_def
      forward_dispatch_def demo_dnn_instance_def forward_dnn_def demo_vendor_def
      to_device_tensor_def)

lemma demo_candidates_of:
  "candidates demo_autoshape_env ml y = demo_candidates"
  by (simp add: demo_autoshape_env_def)

lemma demo_suppress:
  "non_max_suppression demo_candidates (1 / 4) (9 / 20) None False 1000
     = [[\<lparr>det_box = (0, 0, 10, 10), det_conf = 9 / 10, det_cls = 0\<rparr>,
         \<lparr>det_box = (20, 20, 30, 30), det_conf = 1 / 2, det_cls = 1\<rparr>], []]"
  by (simp add: non_max_suppression_def demo_candidates_def duplicates_def box_iou_def
      box_area_def)

lemma demo_scale_coords: "scale_coords demo_autoshape_env shape1 b shape0 = b"
  by (simp add: demo_autoshape_env_def)

lemma demo_time_sync: "time_sync demo_autoshape_env = real"
  by (simp add: demo_autoshape_env_def)

lemma demo_length_sources: "length demo_sources = 2"
  by (simp add: demo_sources_def)

lemma demo_forward_images:
  "forward_images demo_autoshape_env demo_vendor demo_autoshape demo_sources 640 False False
     = ([PreProcess 2 [640, 640], ForwardPass [2, 3, 640, 640],
         NonMaxSuppression (1 / 4) (9 / 20) None False False 1000,
         ScaleCoords 0 [640, 640] [1080, 810], ScaleCoords 1 [640, 640] [720, 1280]],
        Inr (Results
          \<lparr>d_imgs = [NdArray [1080, 810, 3] 21, NdArray [720, 1280, 3] 22],
           d_pred = [[\<lparr>det_box = (0, 0, 10, 10), det_conf = 9 / 10, det_cls = 0\<rparr>,
                      \<lparr>det_box = (20, 20, 30, 30), det_conf = 1 / 2, det_cls = 1\<rparr>], []],
           d_names = [''fish'', ''coral''], d_files = [''bus.jpg'', ''image1.jpg''],
           d_times = [0, 1, 2, 3],
           d_xyxy = [[\<lparr>det_box = (0, 0, 10, 10), det_conf = 9 / 10, det_cls = 0\<rparr>,
                      \<lparr>det_box = (20, 20, 30, 30), det_conf = 1 / 2, det_cls = 1\<rparr>], []],
           d_n = 2, d_s = [2, 3, 640, 640]\<rparr>))"
  by (simp add: forward_images_def demo_preprocess demo_run_model demo_candidates_of
      demo_autoshape_fields demo_suppress rescale_def Detections_init_def demo_scale_coords
      demo_time_sync upt_rec demo_length_sources Let_def)



lemma AutoShape_init_defaults:
  "conf (AutoShape_init m nm st) = 0.25" "iou (AutoShape_init m nm st) = 0.45"
  "max_det (AutoShape_init m nm st) = 1000" "classes (AutoShape_init m nm st) = None"
  "agnostic (AutoShape_init m nm st) = False" "multi_label (AutoShape_init m nm st) = False"
  by (simp_all add: AutoShape_init_def)

section \<open>Claims\<close>

text \<open>
  Claim C3. For every weights path that \<open>check_suffix\<close> accepts (\<open>accepts\<close>), and an export table (\<open>table\<close>)
  of eleven suffixes, \<open>model_type\<close> returns the eleven flags \<open>pt, jit, onnx, xml, engine,
  coreml, saved_model, pb, tflite, edgetpu, tfjs\<close>. Each flag tells whether the suffix of
  its row occurs in the file name \<open>Path(p).name\<close>; \<open>xml\<close> is true as well when \<open>.xml\<close>
  occurs in it (row four of the table is \<open>_openvino_model\<close>), and \<open>tflite\<close> is false
  whenever \<open>edgetpu\<close> is true.
\<close>

theorem model_type_flags:
  assumes len: "length table = 11"
    and chk: "accepts p (table @ [''.xml''])"
  shows "\<exists>f. model_type accepts table p = Inr f
    \<and> pt f = str_in (table ! 0) (path_name p)
    \<and> jit f = str_in (table ! 1) (path_name p)
    \<and> onnx f = str_in (table ! 2) (path_name p)
    \<and> xml f = (str_in (table ! 3) (path_name p) \<or> str_in ''.xml'' (path_name p))
    \<and> engine f = str_in (table ! 4) (path_name p)
    \<and> coreml f = str_in (table ! 5) (path_name p)
    \<and> saved_model f = str_in (table ! 6) (path_name p)
    \<and> pb f = str_in (table ! 7) (path_name p)
    \<and> tflite f = (str_in (table ! 8) (path_name p) \<and> \<not> edgetpu f)
    \<and> edgetpu f = str_in (table ! 9) (path_name p)
    \<and> tfjs f = str_in (table ! 10) (path_name p)"
proof -
  obtain s0 s1 s2 s3 s4 s5 s6 s7 s8 s9 s10
    where xs: "table = [s0, s1, s2, s3, s4, s5, s6, s7, s8, s9, s10]"
    using list11 [OF len] by blast
  show ?thesis
    using chk by (simp add: xs model_type_def Let_def)
qed

theorem model_type_flags_witness:
  "length yolov5_suffixes = 11
   \<and> (\<exists>f. model_type (\<lambda>_ _. True) yolov5_suffixes ''runs/yolov5s-int8_edgetpu.tflite'' = Inr f
        \<and> edgetpu f \<and> \<not> tflite f \<and> \<not> pt f \<and> \<not> xml f \<and> \<not> tfjs f)"
proof -
  have len: "length yolov5_suffixes = 11" by (simp add: yolov5_suffixes_def)
  have nm: "path_name ''runs/yolov5s-int8_edgetpu.tflite'' = ''yolov5s-int8_edgetpu.tflite''"
    by (simp add: path_name_def path_parts_def)
  from model_type_flags [of yolov5_suffixes "\<lambda>_ _. True" "''runs/yolov5s-int8_edgetpu.tflite''", OF len]
  show ?thesis
    unfolding nm by (auto simp: len yolov5_suffixes_def)
qed

text \<open>
  Claim C2, as amended. \<open>DetectMultiBackend.forward\<close> is a sequential dispatch: every
  vendor call of one call of \<open>forward\<close> belongs to one backend, the first of PyTorch,
  TorchScript, OpenCV DNN, ONNX Runtime, OpenVINO, TensorRT, CoreML whose flag was set
  at construction, and TensorFlow when none was. No vendor call is made twice, at most
  one of the calls runs the network, and exactly one does when \<open>forward\<close> returns. The
  branch may make further vendor calls that bind its input or fetch its output (OpenCV
  DNN, ONNX Runtime, TensorFlow Lite).
\<close>

theorem forward_single_backend:
  assumes "DetectMultiBackend_forward v self im augment visualize val = (calls, r)"
  shows "(\<forall>c \<in> set calls. backend_of c = selected_backend self)
       \<and> distinct calls
       \<and> length (filter runs_inference calls) \<le> 1
       \<and> ((\<exists>y. r = Inr y) \<longrightarrow> length (filter runs_inference calls) = 1)"
proof -
  obtain r' where d: "forward_dispatch v self im augment visualize = (calls, r')"
    using forward_calls [of v self im augment visualize val] assms
    by (cases "forward_dispatch v self im augment visualize") simp
  have "(\<exists>y. r = Inr y) \<longleftrightarrow> (\<exists>y. r' = Inr y)"
    using forward_returns_iff [of v self im augment visualize val] assms d by simp
  with dispatch_calls [OF d] show ?thesis by simp
qed

theorem forward_single_backend_witness:
  "DetectMultiBackend_forward demo_vendor demo_dnn_instance demo_image False False False
     = ([DNN_net_setInput, DNN_net_forward], Inr (Plain (TorchTensor (CUDA 0) [1, 25200, 85] 4)))
   \<and> selected_backend demo_dnn_instance = OpenCV_DNN
   \<and> backend_of DNN_net_setInput = selected_backend demo_dnn_instance
   \<and> backend_of DNN_net_forward = selected_backend demo_dnn_instance
   \<and> length (filter runs_inference [DNN_net_setInput, DNN_net_forward]) = 1"
proof -
  have run: "DetectMultiBackend_forward demo_vendor demo_dnn_instance demo_image False False False
     = ([DNN_net_setInput, DNN_net_forward], Inr (Plain (TorchTensor (CUDA 0) [1, 25200, 85] 4)))"
    by (simp add: DetectMultiBackend_forward_def demo_dnn_dispatch to_device_tensor_def
        demo_dnn_device)
  have sel: "selected_backend demo_dnn_instance = OpenCV_DNN"
    by (simp add: selected_backend_def priority_def demo_dnn_instance_def)
  from forward_single_backend [OF run] sel run show ?thesis by simp
qed

text \<open>
  Claim C2 as stated fails where it says that each branch makes a single call into the
  vendor API: the OpenCV DNN branch calls \<open>net.setInput\<close> and then \<open>net.forward\<close>.
\<close>

theorem forward_dnn_two_calls_counterexample:
  "DetectMultiBackend_init demo_env (WeightsPath ''yolov5s.onnx'') (CUDA 0) True None
     = Inr demo_dnn_instance
   \<and> fst (DetectMultiBackend_forward demo_vendor demo_dnn_instance demo_image False False False)
     = [DNN_net_setInput, DNN_net_forward]
   \<and> length (fst (DetectMultiBackend_forward demo_vendor demo_dnn_instance demo_image
        False False False)) \<noteq> 1"
  by (simp add: demo_dnn_init forward_calls demo_dnn_dispatch)

text \<open>
  Claim C6. Whatever branch ran, when it produced \<open>y\<close> without raising, \<open>forward\<close>
  returns the pair \<open>(y', [])\<close> for \<open>val=True\<close> and \<open>y'\<close> alone for \<open>val=False\<close>, where \<open>y'\<close>
  is \<open>y\<close> converted to a torch tensor on the device of the wrapper when \<open>y\<close> is a numpy
  array, and \<open>y\<close> itself when it is a torch tensor already.
\<close>

theorem forward_result_uniform:
  assumes "forward_dispatch v self im augment visualize = (calls, Inr y)"
  shows "\<exists>y'. DetectMultiBackend_forward v self im augment visualize val
                 = (calls, Inr (if val then WithVal y' [] else Plain y'))
             \<and> (\<forall>s d. y = NdArray s d \<longrightarrow> y' = TorchTensor (device self) s d)
             \<and> (\<forall>dv s d. y = TorchTensor dv s d \<longrightarrow> y' = y)"
  using assms
  by (cases y) (simp_all add: DetectMultiBackend_forward_def to_device_tensor_def Let_def)

theorem forward_result_uniform_witness:
  "forward_dispatch demo_vendor demo_dnn_instance demo_image False False
     = ([DNN_net_setInput, DNN_net_forward], Inr (NdArray [1, 25200, 85] 4))
   \<and> DetectMultiBackend_forward demo_vendor demo_dnn_instance demo_image False False True
     = ([DNN_net_setInput, DNN_net_forward],
        Inr (WithVal (TorchTensor (CUDA 0) [1, 25200, 85] 4) []))"
proof -
  from forward_result_uniform [OF demo_dnn_dispatch, of True]
  show ?thesis by (auto simp: demo_dnn_dispatch demo_dnn_device)
qed




text \<open>
  Claim C8. With the same \<open>cv1\<close> and \<open>cv2\<close>, \<open>SPPF\<close> with \<open>k = 5\<close> computes the same
  function as \<open>SPP\<close> with \<open>k = (5, 9, 13)\<close>, for every input (an exception included): the
  5x5 max-pool with stride 1 applied twice is the 9x9 max-pool, applied three times it is
  the 13x13 max-pool, so both layers hand the same concatenation to \<open>cv2\<close>. The elements
  are of any linearly ordered type.
\<close>

theorem SPPF_equals_SPP:
  fixes x :: "('a::linorder) tensor"
  shows "and_then (max_pool2d 5 x) (max_pool2d 5) = max_pool2d 9 x
       \<and> and_then (and_then (max_pool2d 5 x) (max_pool2d 5)) (max_pool2d 5) = max_pool2d 13 x
       \<and> SPPF_forward cv1 cv2 5 x = SPP_forward cv1 cv2 [5, 9, 13] x"
  by (simp only: pool_5_5 pool_9_5 SPPF_forward_eq_SPP_forward)

theorem SPPF_equals_SPP_witness:
  "SPPF_forward Inr Inr 5 demo_plane
     = Inr \<lparr>dims = [1, 4, 3, 4],
            elems = [0, 5, 2, 3, 4, 1, 9, 7, 8, 2, 3, - 1,
                     9, 9, 9, 9, 9, 9, 9, 9, 9, 9, 9, 9,
                     9, 9, 9, 9, 9, 9, 9, 9, 9, 9, 9, 9,
                     9, 9, 9, 9, 9, 9, 9, 9, 9, 9, 9, 9]\<rparr>
   \<and> SPP_forward Inr Inr [5, 9, 13] demo_plane = SPPF_forward Inr Inr 5 demo_plane"
proof -
  have "SPPF_forward Inr Inr 5 demo_plane
     = Inr \<lparr>dims = [1, 4, 3, 4],
            elems = [0, 5, 2, 3, 4, 1, 9, 7, 8, 2, 3, - 1,
                     9, 9, 9, 9, 9, 9, 9, 9, 9, 9, 9, 9,
                     9, 9, 9, 9, 9, 9, 9, 9, 9, 9, 9, 9,
                     9, 9, 9, 9, 9, 9, 9, 9, 9, 9, 9, 9]\<rparr>"
    by code_simp
  with SPPF_equals_SPP [of demo_plane Inr Inr] show ?thesis by simp
qed

text \<open>
  Claim C9. For a gain \<open>s > 0\<close> (a zero gain raises \<open>ZeroDivisionError\<close>), \<open>Expand\<close> undoes
  \<open>Contract\<close> on every tensor of dimensions \<open>(b, c, h, w)\<close> with \<open>h\<close> and \<open>w\<close> divisible by
  \<open>s\<close>, and \<open>Contract\<close> undoes \<open>Expand\<close> on every tensor of dimensions \<open>(b, c, h, w)\<close> with
  \<open>c\<close> divisible by \<open>s\<^sup>2\<close>.
\<close>

theorem Expand_inverts_Contract:
  assumes "0 < s"
  shows "(wf_tensor x \<and> dims x = [b, c, h, w] \<and> s dvd h \<and> s dvd w
            \<longrightarrow> and_then (Contract_forward s x) (Expand_forward s) = Inr x)
       \<and> (wf_tensor y \<and> dims y = [b', c', h', w'] \<and> s ^ 2 dvd c'
            \<longrightarrow> and_then (Expand_forward s y) (Contract_forward s) = Inr y)"
  using assms Contract_then_Expand [of x b c h w s] Expand_then_Contract [of y b' c' h' w' s]
  by blast

theorem Expand_inverts_Contract_witness:
  "Contract_forward 2 demo_wide
     = Inr \<lparr>dims = [1, 4, 1, 2], elems = [0, 2, 1, 3, 4, 6, 5, 7]\<rparr>
   \<and> and_then (Contract_forward 2 demo_wide) (Expand_forward 2) = Inr demo_wide
   \<and> Expand_forward 2 demo_deep
     = Inr \<lparr>dims = [1, 1, 2, 4], elems = [0, 2, 1, 3, 4, 6, 5, 7]\<rparr>
   \<and> and_then (Expand_forward 2 demo_deep) (Contract_forward 2) = Inr demo_deep"
proof -
  have c: "Contract_forward 2 demo_wide
     = Inr \<lparr>dims = [1, 4, 1, 2], elems = [0, 2, 1, 3, 4, 6, 5, 7]\<rparr>"
    by code_simp
  have e: "Expand_forward 2 demo_deep
     = Inr \<lparr>dims = [1, 1, 2, 4], elems = [0, 2, 1, 3, 4, 6, 5, 7]\<rparr>"
    by code_simp
  have x: "wf_tensor demo_wide \<and> dims demo_wide = [1, 1, 2, 4] \<and> (2::nat) dvd 2 \<and> (2::nat) dvd 4"
    by (simp add: wf_tensor_def demo_wide_def)
  have y: "wf_tensor demo_deep \<and> dims demo_deep = [1, 4, 1, 2] \<and> (2::nat) ^ 2 dvd 4"
    by (simp add: wf_tensor_def demo_deep_def)
  have "(0::nat) < 2" by simp
  from Expand_inverts_Contract [OF this, of demo_wide 1 1 2 4 demo_deep 1 4 1 2] x y c e
  show ?thesis by blast
qed








text \<open>
  Claim C4. The class attributes are \<open>conf = 0.25\<close>, \<open>iou = 0.45\<close> and \<open>max_det = 1000\<close>
  (with \<open>classes = None\<close> and \<open>agnostic = multi_label = False\<close>), and \<open>__init__\<close> sets
  none of them. For every input that is not a tensor, every non-max suppression that
  \<open>AutoShape.forward\<close> runs is given the attributes \<open>conf\<close>, \<open>iou\<close>, \<open>classes\<close>,
  \<open>agnostic\<close>, \<open>multi_label\<close> and \<open>max_det\<close> of the instance; when \<open>forward\<close> returns a
  \<open>Detections\<close> object, that non-max suppression has run, and every prediction of the
  object has at most \<open>max_det\<close> rows: at most 1000 for an instance with the attributes
  of the class.
\<close>

theorem AutoShape_nms_defaults:
  assumes "\<not> is_tensor imgs"
    and "AutoShape_forward env v self imgs sz augment profile = (trace, r)"
  shows "conf (AutoShape_init m nm st) = 0.25 \<and> iou (AutoShape_init m nm st) = 0.45
         \<and> max_det (AutoShape_init m nm st) = 1000
         \<and> (\<forall>s\<in>set trace. kind_of s = Nms \<longrightarrow>
               s = NonMaxSuppression (conf self) (iou self) (classes self) (agnostic self)
                     (multi_label self) (max_det self))
         \<and> (\<forall>d. r = Inr (Results d) \<longrightarrow>
               NonMaxSuppression (conf self) (iou self) (classes self) (agnostic self)
                 (multi_label self) (max_det self) \<in> set trace
               \<and> (\<forall>pr\<in>set (d_pred d). length pr \<le> max_det self)
               \<and> (self = AutoShape_init m nm st \<longrightarrow>
                    NonMaxSuppression 0.25 0.45 None False False 1000 \<in> set trace
                    \<and> (\<forall>pr\<in>set (d_pred d). length pr \<le> 1000)))"
proof -
  have fw: "forward_images env v self (image_list imgs) sz augment profile = (trace, r)"
    using assms(2) by (simp only: AutoShape_forward_images [OF assms(1)])
  note nms = forward_images_nms [OF fw]
  have "NonMaxSuppression 0.25 0.45 None False False 1000 \<in> set trace
        \<and> (\<forall>pr\<in>set (d_pred d). length pr \<le> 1000)"
    if "r = Inr (Results d)" "self = AutoShape_init m nm st" for d
  proof -
    from nms(2) that(1)
    have "NonMaxSuppression (conf self) (iou self) (classes self) (agnostic self)
            (multi_label self) (max_det self) \<in> set trace
          \<and> (\<forall>pr\<in>set (d_pred d). length pr \<le> max_det self)"
      by blast
    then show ?thesis
      unfolding that(2) by (simp add: AutoShape_init_defaults)
  qed
  with nms show ?thesis
    by (simp add: AutoShape_init_defaults)
qed

theorem AutoShape_nms_defaults_witness:
  "\<not> is_tensor (ImageList demo_sources)
   \<and> AutoShape_forward demo_autoshape_env demo_vendor demo_autoshape (ImageList demo_sources)
         640 False False
       = ([PreProcess 2 [640, 640], ForwardPass [2, 3, 640, 640],
           NonMaxSuppression (1 / 4) (9 / 20) None False False 1000,
           ScaleCoords 0 [640, 640] [1080, 810], ScaleCoords 1 [640, 640] [720, 1280]],
          Inr (Results
            \<lparr>d_imgs = [NdArray [1080, 810, 3] 21, NdArray [720, 1280, 3] 22],
             d_pred = [[\<lparr>det_box = (0, 0, 10, 10), det_conf = 9 / 10, det_cls = 0\<rparr>,
                        \<lparr>det_box = (20, 20, 30, 30), det_conf = 1 / 2, det_cls = 1\<rparr>], []],
             d_names = [''fish'', ''coral''], d_files = [''bus.jpg'', ''image1.jpg''],
             d_times = [0, 1, 2, 3],
             d_xyxy = [[\<lparr>det_box = (0, 0, 10, 10), det_conf = 9 / 10, det_cls = 0\<rparr>,
                        \<lparr>det_box = (20, 20, 30, 30), det_conf = 1 / 2, det_cls = 1\<rparr>], []],
             d_n = 2, d_s = [2, 3, 640, 640]\<rparr>))
   \<and> demo_autoshape = AutoShape_init (Backend demo_dnn_instance) [''fish'', ''coral''] 32
   \<and> conf demo_autoshape = 0.25 \<and> iou demo_autoshape = 0.45 \<and> max_det demo_autoshape = 1000
   \<and> NonMaxSuppression 0.25 0.45 None False False 1000
       \<in> set [PreProcess 2 [640, 640], ForwardPass [2, 3, 640, 640],
               NonMaxSuppression (1 / 4) (9 / 20) None False False 1000,
               ScaleCoords 0 [640, 640] [1080, 810], ScaleCoords 1 [640, 640] [720, 1280]]
   \<and> length [\<lparr>det_box = (0, 0, 10, 10), det_conf = 9 / 10, det_cls = 0\<rparr>,
              \<lparr>det_box = (20, 20, 30, 30), det_conf = 1 / 2, det_cls = (1::nat)\<rparr>] \<le> 1000"
proof -
  let ?trace = "[PreProcess 2 [640, 640], ForwardPass [2, 3, 640, 640],
           NonMaxSuppression (1 / 4) (9 / 20) None False False 1000,
           ScaleCoords 0 [640, 640] [1080, 810], ScaleCoords 1 [640, 640] [720, 1280]]"
  let ?pred = "[[\<lparr>det_box = (0, 0, 10, 10), det_conf = 9 / 10, det_cls = 0\<rparr>,
                 \<lparr>det_box = (20, 20, 30, 30), det_conf = 1 / 2, det_cls = 1\<rparr>], []]"
  let ?d = "\<lparr>d_imgs = [NdArray [1080, 810, 3] (21::nat), NdArray [720, 1280, 3] 22],
             d_pred = ?pred,
             d_names = [''fish'', ''coral''], d_files = [''bus.jpg'', ''image1.jpg''],
             d_times = [0, 1, 2, 3], d_xyxy = ?pred, d_n = 2, d_s = [2, 3, 640, 640]\<rparr>"
  have a: "\<not> is_tensor (ImageList demo_sources)" by simp
  have b: "AutoShape_forward demo_autoshape_env demo_vendor demo_autoshape
             (ImageList demo_sources) 640 False False = (?trace, Inr (Results ?d))"
    by (simp only: AutoShape_forward_images [OF a] image_list.simps demo_forward_images)
  have c: "demo_autoshape = AutoShape_init (Backend demo_dnn_instance) [''fish'', ''coral''] 32"
    by (rule demo_autoshape_def)
  from AutoShape_nms_defaults [OF a b, of "Backend demo_dnn_instance" "[''fish'', ''coral'']" 32]
  have "NonMaxSuppression 0.25 0.45 None False False 1000 \<in> set ?trace
        \<and> (\<forall>pr\<in>set (d_pred ?d). length pr \<le> 1000)"
    using c by blast
  then have "NonMaxSuppression 0.25 0.45 None False False 1000 \<in> set ?trace"
    and "length [\<lparr>det_box = (0, 0, 10, 10), det_conf = 9 / 10, det_cls = 0\<rparr>,
              \<lparr>det_box = (20, 20, 30, 30), det_conf = 1 / 2, det_cls = (1::nat)\<rparr>] \<le> 1000"
    by simp_all
  moreover have "conf demo_autoshape = 0.25 \<and> iou demo_autoshape = 0.45
      \<and> max_det demo_autoshape = 1000"
    by (simp add: demo_autoshape_fields)
  ultimately show ?thesis using a b c by blast
qed

end
